theory Spec2Isabelle
  imports Main "HOL-Library.Word"
begin

section \<open>The Santa Claus problem of main.c\<close>

text \<open>
  The repository holds several versions of \<^verbatim>\<open>main.c\<close>. Two are embedded here:
  \<^item> the version with \<^verbatim>\<open>santa_sleep_mutex\<close> (the first \<^verbatim>\<open>main.c\<close> of
    \<^verbatim>\<open>src/unnamed/part_002\<close>, lines 1 to 417); its functions keep their names;
  \<^item> \<^verbatim>\<open>src/trunk/main.c\<close>, where Santa polls; its functions carry the prefix
    \<^verbatim>\<open>trunk_\<close> where they differ.

  A C function that works on the global variables becomes a function from
  \<^verbatim>\<open>state\<close> to \<^verbatim>\<open>state\<close>. A function body is a list of statements run in
  order by \<^verbatim>\<open>block\<close>. A statement that has to wait (a \<^verbatim>\<open>sem_wait\<close> on a
  semaphore whose value is 0) leaves the state as it is and records in \<^verbatim>\<open>status\<close>
  the semaphore the thread is suspended on; the rest of the body is then not run.
  \<^verbatim>\<open>exit\<close> records the exit code in the same field.
\<close>

subsection \<open>Constants\<close>

definition NUM_REINDEER :: int where
  "NUM_REINDEER = 10"

definition NUM_ELVES :: int where
  "NUM_ELVES = 9"

definition NUM_ELVES_PER_GROUP :: int where
  "NUM_ELVES_PER_GROUP = 3"

text \<open>\<^verbatim>\<open>int\<close> and \<^verbatim>\<open>unsigned int\<close> are taken to be 32 bits wide.\<close>

definition INT_MAX :: int where
  "INT_MAX = 2 ^ 31 - 1"

definition MAX_WAIT_TIME :: int where
  "MAX_WAIT_TIME = drop_bit 4 INT_MAX"

definition EXIT_SUCCESS :: int where
  "EXIT_SUCCESS = 0"

subsection \<open>Semaphores, threads, output\<close>

text \<open>
  The semaphores that \<^verbatim>\<open>main\<close> unpacks from \<^verbatim>\<open>sem_set\<close>, and the members of
  \<^verbatim>\<open>elf_line_set\<close>, one for each elf. \<^verbatim>\<open>christmas_mutex\<close> exists in
  \<^verbatim>\<open>trunk/main.c\<close> only, \<^verbatim>\<open>santa_sleep_mutex\<close> in the other version only.
\<close>

datatype sem =
    santa_busy_mutex
  | santa_sleep_mutex
  | christmas_mutex
  | reindeer_counting_sem
  | reindeer_counter_lock
  | elf_counting_sem
  | elf_mutex
  | elf_counter_lock
  | elf_line_set int

datatype actor = Main_thread | Santa | Elf int | Reindeer int

text \<open>One constructor for each format string that the program prints.\<close>

datatype msg =
    Santa_noticed_elves_waiting
  | Santa_elves_outside_my_door int
  | Santa_helping_elf int
  | Santa_preparing_the_sleigh
  | Santa_sleeping
  | Santa_Im_up
  | Elf_got_santas_help int
  | Elf_is_working int
  | Elf_needs_Santas_help int
  | Elf_in_line int
  | Elves_waking_up_santa
  | Reindeer_getting_hitched int
  | Reindeer_off_to_the_Tropics int
  | Reindeer_back_from_the_Tropics int
  | Reindeer_Im_the_last_one int
  | Reindeer_on_vacation int
  | Reindeer_waiting_for_the_others int
  | Ho_ho_ho
  | Merry_Christmas_indeed
  | Freeing_semaphores
  | Unable_to_register_atexit

datatype resource = The_sem_set | The_elf_line_set | The_elves_waiting

text \<open>
  What the process does to the outside: its output, the threads it creates, and its
  calls of \<^verbatim>\<open>sem_fill_set\<close>, \<^verbatim>\<open>set_alloc\<close>, \<^verbatim>\<open>sem_empty_set\<close>,
  \<^verbatim>\<open>set_exit_free\<close> and \<^verbatim>\<open>set_free\<close>, which are functions of the missing
  \<^verbatim>\<open>sem.c\<close> and \<^verbatim>\<open>set.c\<close> that allocate and free the semaphore sets and the set.
\<close>

datatype event =
    Stdout msg
  | Stderr msg
  | Sem_fill_set resource int
  | Set_alloc resource int
  | Sem_empty_set resource
  | Set_exit_free resource
  | Set_free resource
  | Pthread_create actor

text \<open>
  \<^verbatim>\<open>Undescribed\<close> marks a call whose behaviour no source and no sentence of the
  spec describes (taking from an empty set).
\<close>

datatype status = Running | Blocked sem | Exited int | Undescribed

record state =
  sem_val :: "sem \<Rightarrow> nat"
  held :: "actor \<Rightarrow> sem set"
  num_reindeer_waiting :: int
  num_elves_being_helped :: int
  elves_waiting :: "int list"
  resources_freed :: bool
  atexit_registered :: bool
  trace :: "event list"
  status :: status

text \<open>
  \<^verbatim>\<open>held s a\<close> is bookkeeping that the C program does not have: the semaphores
  that thread \<^verbatim>\<open>a\<close> has taken with \<^verbatim>\<open>sem_wait\<close> and not given back with a signal
  of its own. \<^verbatim>\<open>resources_freed\<close> is the static local of \<^verbatim>\<open>free_resources\<close>.
\<close>

type_synonym stmt = "state \<Rightarrow> state"

definition running :: "stmt \<Rightarrow> stmt" where
  "running f s = (if status s = Running then f s else s)"

fun block :: "stmt list \<Rightarrow> stmt" where
  "block [] s = s"
| "block (c # cs) s = block cs (c s)"

subsection \<open>sem.h and set.h\<close>

text \<open>
  Modelled from the spec: \<^verbatim>\<open>sem.h\<close> and \<^verbatim>\<open>sem.c\<close> are not among the sources.
  The spec's gate primitives are a counting signal with blocking decrement and
  increment, and a mutex, which is such a signal started at 1. \<^verbatim>\<open>sem_wait\<close> is the
  blocking decrement.
\<close>

definition sem_wait :: "actor \<Rightarrow> sem \<Rightarrow> stmt" where
  "sem_wait a m = running (\<lambda>s.
     if sem_val s m = 0 then s\<lparr>status := Blocked m\<rparr>
     else s\<lparr>sem_val := (sem_val s)(m := sem_val s m - 1),
            held := (held s)(a := insert m (held s a))\<rparr>)"

text \<open>
  Modelled from the spec: \<^verbatim>\<open>sem_signal_ntimes\<close> of the missing \<^verbatim>\<open>sem.c\<close> is the
  increment of a counting signal by \<^verbatim>\<open>n\<close> credits; it never waits.
\<close>

definition sem_signal_ntimes :: "actor \<Rightarrow> sem \<Rightarrow> nat \<Rightarrow> stmt" where
  "sem_signal_ntimes a m n = running (\<lambda>s.
     s\<lparr>sem_val := (sem_val s)(m := sem_val s m + n),
       held := (held s)(a := held s a - {m})\<rparr>)"

text \<open>Modelled from the spec: \<^verbatim>\<open>sem_signal\<close> of the missing \<^verbatim>\<open>sem.c\<close>, one credit.\<close>

definition sem_signal :: "actor \<Rightarrow> sem \<Rightarrow> stmt" where
  "sem_signal a m = sem_signal_ntimes a m 1"

text \<open>
  Modelled from the spec: \<^verbatim>\<open>sem_wait_index\<close> of the missing \<^verbatim>\<open>sem.c\<close> waits on
  member \<^verbatim>\<open>i\<close> of a semaphore set, the spec's wakeup channel indexed by identity.
  The only set it is used on is \<^verbatim>\<open>elf_line_set\<close>.
\<close>

definition sem_wait_index :: "actor \<Rightarrow> int \<Rightarrow> stmt" where
  "sem_wait_index a i = sem_wait a (elf_line_set i)"

text \<open>
  Modelled from the spec: \<^verbatim>\<open>sem_signal_index\<close> of the missing \<^verbatim>\<open>sem.c\<close> gives
  \<^verbatim>\<open>n\<close> credits to member \<^verbatim>\<open>i\<close> of \<^verbatim>\<open>elf_line_set\<close>.
\<close>

definition sem_signal_index :: "actor \<Rightarrow> int \<Rightarrow> nat \<Rightarrow> stmt" where
  "sem_signal_index a i n = sem_signal_ntimes a (elf_line_set i) n"

text \<open>
  Modelled from the spec: the macro \<^verbatim>\<open>CRITICAL(mutex, body)\<close> of the missing
  \<^verbatim>\<open>sem.h\<close> runs the body under the lock: wait, body, signal.
\<close>

definition CRITICAL :: "actor \<Rightarrow> sem \<Rightarrow> stmt list \<Rightarrow> stmt" where
  "CRITICAL a m body = block [sem_wait a m, block body, sem_signal a m]"

text \<open>
  Modelled from the spec: \<^verbatim>\<open>set.c\<close> is not among the sources. The WaitingSet holds
  identities, and \<^verbatim>\<open>set_insert\<close> adds one; a thread does not insert itself while
  it is in the set. The members are kept in the order of their arrival.
\<close>

definition set_insert :: "int \<Rightarrow> stmt" where
  "set_insert item = running (\<lambda>s. s\<lparr>elves_waiting := elves_waiting s @ [item]\<rparr>)"

text \<open>
  Modelled from the spec: \<^verbatim>\<open>set_cardinality\<close> of the missing \<^verbatim>\<open>set.c\<close> is the
  number of members.
\<close>

definition set_cardinality :: "state \<Rightarrow> int" where
  "set_cardinality s = int (length (elves_waiting s))"

text \<open>
  Modelled from the spec: \<^verbatim>\<open>set_take\<close> of the missing \<^verbatim>\<open>set.c\<close> removes one
  member and returns it. Which member is left open by the spec; here it is the oldest.
  What it does on an empty set is not described; the model returns \<^verbatim>\<open>None\<close>.
\<close>

definition set_take :: "state \<Rightarrow> (int \<times> state) option" where
  "set_take s = (case elves_waiting s of
       [] \<Rightarrow> None
     | x # xs \<Rightarrow> Some (x, s\<lparr>elves_waiting := xs\<rparr>))"

subsection \<open>Output, teardown and exit\<close>

definition fprintf :: "event \<Rightarrow> stmt" where
  "fprintf e = running (\<lambda>s. s\<lparr>trace := trace s @ [e]\<rparr>)"

text \<open>
  \<^verbatim>\<open>free_resources\<close> is the at-exit handler, so it also runs once the process is
  exiting: it does not look at \<^verbatim>\<open>status\<close>. The three calls into the missing
  \<^verbatim>\<open>sem.c\<close> and \<^verbatim>\<open>set.c\<close> are recorded in the trace. The two versions differ
  in the message they print.
\<close>

definition free_resources_printing :: "msg \<Rightarrow> stmt" where
  "free_resources_printing m s =
     (if \<not> resources_freed s then
        s\<lparr>resources_freed := True,
          trace := trace s @ [Stdout m,
                              Sem_empty_set The_sem_set,
                              Sem_empty_set The_elf_line_set,
                              Set_exit_free The_elves_waiting]\<rparr>
      else s)"

definition free_resources :: stmt where
  "free_resources = free_resources_printing Merry_Christmas_indeed"

definition trunk_free_resources :: stmt where
  "trunk_free_resources = free_resources_printing Freeing_semaphores"

text \<open>\<^verbatim>\<open>exit\<close> runs the handler registered with \<^verbatim>\<open>atexit\<close> and ends the process.\<close>

definition exit_process :: "int \<Rightarrow> stmt" where
  "exit_process code = running (\<lambda>s.
     (if atexit_registered s then free_resources s else s)\<lparr>status := Exited code\<rparr>)"

definition sigint_handler :: stmt where
  "sigint_handler = exit_process EXIT_SUCCESS"

subsection \<open>random_wait\<close>

text \<open>
  The delay loop \<^verbatim>\<open>for(; --i; );\<close> on an \<^verbatim>\<open>unsigned int\<close>. The second argument
  counts the runs of the (empty) loop body.
\<close>

function delay_loop :: "32 word \<Rightarrow> nat \<Rightarrow> nat" where
  "delay_loop i n = (let i' = i - 1 in if i' \<noteq> 0 then delay_loop i' (Suc n) else n)"
  by pat_completeness auto

termination delay_loop
proof (relation "measure (\<lambda>(i, n). unat (i - 1))")
  show "wf (measure (\<lambda>(i :: 32 word, n :: nat). unat (i - 1)))" by simp
next
  fix i :: "32 word" and n :: nat and x :: "32 word"
  assume "x = i - 1" and "x \<noteq> 0"
  then show "((x, Suc n), (i, n)) \<in> measure (\<lambda>(i, n). unat (i - 1))"
    using unat_minus_one [of x] unat_gt_0 [of x] by simp
qed

text \<open>
  \<^verbatim>\<open>unsigned int i = rand() % MAX_WAIT_TIME;\<close> with \<^verbatim>\<open>r\<close> the value of
  \<^verbatim>\<open>rand()\<close>, which is not negative, so that C's \<^verbatim>\<open>%\<close> is \<^verbatim>\<open>mod\<close>.
\<close>

definition random_wait_draw :: "int \<Rightarrow> 32 word" where
  "random_wait_draw r = word_of_int (r mod MAX_WAIT_TIME)"

definition random_wait_iterations :: "int \<Rightarrow> nat" where
  "random_wait_iterations r = delay_loop (random_wait_draw r) 0"

text \<open>On the shared state \<^verbatim>\<open>random_wait\<close> only prints its message.\<close>

definition random_wait :: "msg \<Rightarrow> stmt" where
  "random_wait m = fprintf (Stdout m)"

subsection \<open>Statements\<close>

text \<open>An \<^verbatim>\<open>if\<close> whose condition reads the shared variables when it is reached.\<close>

definition IF :: "(state \<Rightarrow> bool) \<Rightarrow> stmt list \<Rightarrow> stmt list \<Rightarrow> stmt" where
  "IF c yes no = running (\<lambda>s. if c s then block yes s else block no s)"

definition assign_num_elves_being_helped :: "int \<Rightarrow> stmt" where
  "assign_num_elves_being_helped v = running (\<lambda>s. s\<lparr>num_elves_being_helped := v\<rparr>)"

definition assign_num_reindeer_waiting :: "int \<Rightarrow> stmt" where
  "assign_num_reindeer_waiting v = running (\<lambda>s. s\<lparr>num_reindeer_waiting := v\<rparr>)"

subsection \<open>Santa\<close>

text \<open>
  The loop of \<^verbatim>\<open>help_elves\<close>,
  \<^verbatim>\<open>for(i = ...; i < NUM_ELVES_PER_GROUP; ++i) { elf = set_take(elves_waiting); fprintf(...); sem_signal_index(&elf_line_set, elf, 1); }\<close>,
  from the value \<^verbatim>\<open>i\<close> has when the loop is entered.
\<close>

function help_loop :: "int \<Rightarrow> stmt" where
  "help_loop i s =
     (if status s = Running \<and> i < NUM_ELVES_PER_GROUP then
        (case set_take s of
           None \<Rightarrow> s\<lparr>status := Undescribed\<rparr>
         | Some (elf, s') \<Rightarrow>
             help_loop (i + 1)
               (block [fprintf (Stdout (Santa_helping_elf elf)),
                       sem_signal_index Santa elf 1] s'))
      else s)"
  by pat_completeness auto
termination
  by (relation "measure (\<lambda>(i, s). nat (NUM_ELVES_PER_GROUP - i))") auto

text \<open>\<^verbatim>\<open>help_elves\<close> of \<^verbatim>\<open>part_002\<close>: the loop starts with \<^verbatim>\<open>i = 0\<close>.\<close>

definition help_elves :: stmt where
  "help_elves = block
     [fprintf (Stdout Santa_noticed_elves_waiting),
      sem_wait Santa santa_busy_mutex,
      CRITICAL Santa elf_counter_lock
        [assign_num_elves_being_helped NUM_ELVES_PER_GROUP],
      CRITICAL Santa elf_mutex
        [(\<lambda>s. fprintf (Stdout (Santa_elves_outside_my_door (set_cardinality s))) s),
         help_loop 0]]"

text \<open>
  \<^verbatim>\<open>help_elves\<close> of \<^verbatim>\<open>trunk/main.c\<close>: the loop starts with \<^verbatim>\<open>i = i\<close>, and
  \<^verbatim>\<open>i\<close> is a local variable that has not been given a value. \<^verbatim>\<open>i0\<close> is the value
  it happens to hold.
\<close>

definition trunk_help_elves :: "int \<Rightarrow> stmt" where
  "trunk_help_elves i0 = block
     [fprintf (Stdout Santa_noticed_elves_waiting),
      sem_wait Santa santa_busy_mutex,
      CRITICAL Santa elf_counter_lock
        [assign_num_elves_being_helped NUM_ELVES_PER_GROUP],
      CRITICAL Santa elf_mutex
        [help_loop i0]]"

definition prepare_sleigh :: stmt where
  "prepare_sleigh = block
     [sem_wait Santa santa_busy_mutex,
      fprintf (Stdout Santa_preparing_the_sleigh),
      sem_signal_ntimes Santa reindeer_counting_sem (nat NUM_REINDEER)]"

text \<open>What Santa does once he has been woken: the \<^verbatim>\<open>if\<close> of \<^verbatim>\<open>santa\<close>.\<close>

definition santa_awake :: stmt where
  "santa_awake =
     IF (\<lambda>s. NUM_REINDEER \<le> num_reindeer_waiting s)
       [assign_num_reindeer_waiting NUM_REINDEER,
        prepare_sleigh,
        sem_wait Santa santa_busy_mutex,
        sem_wait Santa santa_sleep_mutex]
       [IF (\<lambda>s. 3 \<le> set_cardinality s)
          [help_elves]
          []]"

text \<open>
  One turn of the \<^verbatim>\<open>while(1)\<close> of \<^verbatim>\<open>santa\<close>. The assertion before the loop,
  that the thread is launched once, is not part of a turn.
\<close>

definition santa_iteration :: stmt where
  "santa_iteration = block
     [CRITICAL Santa santa_busy_mutex [fprintf (Stdout Santa_sleeping)],
      sem_wait Santa santa_sleep_mutex,
      fprintf (Stdout Santa_Im_up),
      santa_awake]"

text \<open>
  One turn of the loop of \<^verbatim>\<open>santa\<close> in \<^verbatim>\<open>trunk/main.c\<close>: no
  \<^verbatim>\<open>santa_sleep_mutex\<close>; Santa looks at the two counters after each nap.
\<close>

definition trunk_santa_awake :: "int \<Rightarrow> stmt" where
  "trunk_santa_awake i0 =
     IF (\<lambda>s. NUM_REINDEER \<le> num_reindeer_waiting s)
       [assign_num_reindeer_waiting NUM_REINDEER,
        prepare_sleigh,
        sem_wait Santa christmas_mutex]
       [IF (\<lambda>s. 3 \<le> set_cardinality s)
          [trunk_help_elves i0]
          []]"

definition trunk_santa_iteration :: "int \<Rightarrow> stmt" where
  "trunk_santa_iteration i0 = block
     [CRITICAL Santa santa_busy_mutex [random_wait Santa_sleeping],
      trunk_santa_awake i0]"

subsection \<open>Elves\<close>

definition get_help :: "int \<Rightarrow> stmt" where
  "get_help ident = block
     [fprintf (Stdout (Elf_got_santas_help ident)),
      CRITICAL (Elf ident) elf_counter_lock
        [(\<lambda>s. assign_num_elves_being_helped (num_elves_being_helped s - 1) s),
         IF (\<lambda>s. num_elves_being_helped s = 0)
           [sem_signal (Elf ident) santa_busy_mutex,
            sem_signal_ntimes (Elf ident) elf_counting_sem (nat NUM_ELVES_PER_GROUP)]
           []]]"

text \<open>The critical section of \<^verbatim>\<open>elf\<close> in which the elf gets in line.\<close>

definition elf_get_in_line :: "int \<Rightarrow> stmt" where
  "elf_get_in_line ident =
     CRITICAL (Elf ident) elf_mutex
       [set_insert ident,
        fprintf (Stdout (Elf_in_line ident)),
        IF (\<lambda>s. NUM_ELVES_PER_GROUP = set_cardinality s)
          [fprintf (Stdout Elves_waking_up_santa),
           sem_signal (Elf ident) santa_sleep_mutex]
          []]"

text \<open>One turn of the \<^verbatim>\<open>while(1)\<close> of \<^verbatim>\<open>elf\<close>.\<close>

definition elf_iteration :: "int \<Rightarrow> stmt" where
  "elf_iteration ident = block
     [random_wait (Elf_is_working ident),
      fprintf (Stdout (Elf_needs_Santas_help ident)),
      sem_wait (Elf ident) elf_counting_sem,
      elf_get_in_line ident,
      sem_wait_index (Elf ident) ident,
      get_help ident]"

text \<open>
  One turn of the loop of \<^verbatim>\<open>elf\<close> in \<^verbatim>\<open>trunk/main.c\<close>: the wait on the elf's
  own semaphore is inside the critical section. The identity, which that version draws
  from a counter when the thread starts, is the parameter.
\<close>

definition trunk_elf_iteration :: "int \<Rightarrow> stmt" where
  "trunk_elf_iteration ident = block
     [random_wait (Elf_is_working ident),
      fprintf (Stdout (Elf_needs_Santas_help ident)),
      sem_wait (Elf ident) elf_counting_sem,
      CRITICAL (Elf ident) elf_mutex
        [set_insert ident,
         fprintf (Stdout (Elf_in_line ident)),
         sem_wait_index (Elf ident) ident],
      get_help ident]"

subsection \<open>Reindeer\<close>

definition get_hitched :: "int \<Rightarrow> stmt" where
  "get_hitched ident = fprintf (Stdout (Reindeer_getting_hitched ident))"

text \<open>
  The body of \<^verbatim>\<open>reindeer\<close>, cut where another thread can run in between: before
  each wait and between the two statements that read or write
  \<^verbatim>\<open>num_reindeer_waiting\<close> without the lock being held from one to the other.
\<close>

definition reindeer_code :: "int \<Rightarrow> stmt list" where
  "reindeer_code ident =
     [random_wait (Reindeer_off_to_the_Tropics ident),
      CRITICAL (Reindeer ident) reindeer_counter_lock
        [(\<lambda>s. assign_num_reindeer_waiting (num_reindeer_waiting s + 1) s)],
      block
        [fprintf (Stdout (Reindeer_back_from_the_Tropics ident)),
         IF (\<lambda>s. NUM_REINDEER \<le> num_reindeer_waiting s)
           [fprintf (Stdout (Reindeer_Im_the_last_one ident)),
            sem_signal (Reindeer ident) santa_sleep_mutex]
           []],
      sem_wait (Reindeer ident) reindeer_counting_sem,
      CRITICAL (Reindeer ident) reindeer_counter_lock
        [get_hitched ident,
         (\<lambda>s. assign_num_reindeer_waiting (num_reindeer_waiting s - 1) s),
         IF (\<lambda>s. 0 = num_reindeer_waiting s)
           [fprintf (Stdout Ho_ho_ho),
            exit_process EXIT_SUCCESS]
           []]]"

definition reindeer :: "int \<Rightarrow> stmt" where
  "reindeer ident = block (reindeer_code ident)"

subsection \<open>Reindeer threads running side by side\<close>

text \<open>
  Each reindeer thread is at one of the statements of \<^verbatim>\<open>reindeer_code\<close>. A step of
  reindeer \<^verbatim>\<open>id\<close> runs its next statement on the shared state. There is no step
  when the statement has to wait, when the thread has returned, or when the process
  has exited. A critical section is one step: it can be taken when its lock is free.
\<close>

record config =
  shared :: state
  reindeer_pc :: "int \<Rightarrow> nat"

definition reindeer_step :: "int \<Rightarrow> config \<Rightarrow> config option" where
  "reindeer_step ident c =
     (let pc = reindeer_pc c ident in
      if status (shared c) \<noteq> Running \<or> length (reindeer_code ident) \<le> pc then None
      else
        let s' = (reindeer_code ident ! pc) (shared c) in
        (case status s' of
           Blocked m \<Rightarrow> None
         | _ \<Rightarrow> Some (c\<lparr>shared := s', reindeer_pc := (reindeer_pc c)(ident := pc + 1)\<rparr>)))"

fun run_reindeer :: "int list \<Rightarrow> config \<Rightarrow> config option" where
  "run_reindeer [] c = Some c"
| "run_reindeer (ident # ids) c =
     (case reindeer_step ident c of
        None \<Rightarrow> None
      | Some c' \<Rightarrow> run_reindeer ids c')"

text \<open>The number of reindeer threads that are at statement \<^verbatim>\<open>k\<close>.\<close>

definition reindeer_at :: "config \<Rightarrow> nat \<Rightarrow> nat" where
  "reindeer_at c k = length (filter (\<lambda>r. reindeer_pc c r = k) [0..NUM_REINDEER - 1])"

subsection \<open>main\<close>

text \<open>Modelled from the spec: \<^verbatim>\<open>sem_init\<close> of the missing \<^verbatim>\<open>sem.c\<close> sets the value.\<close>

definition sem_init :: "sem \<Rightarrow> nat \<Rightarrow> stmt" where
  "sem_init m v = running (\<lambda>s. s\<lparr>sem_val := (sem_val s)(m := v)\<rparr>)"

text \<open>
  Modelled from the spec: \<^verbatim>\<open>sem_init_all\<close> of the missing \<^verbatim>\<open>sem.c\<close> sets every
  member of a set; it is used on \<^verbatim>\<open>elf_line_set\<close> only.
\<close>

definition sem_init_all :: "nat \<Rightarrow> stmt" where
  "sem_init_all v = running (\<lambda>s.
     s\<lparr>sem_val := (\<lambda>m. case m of elf_line_set i \<Rightarrow> v | _ \<Rightarrow> sem_val s m)\<rparr>)"

definition register_atexit :: stmt where
  "register_atexit = running (\<lambda>s. s\<lparr>atexit_registered := True\<rparr>)"

text \<open>
  \<^verbatim>\<open>launch_threads\<close> up to its \<^verbatim>\<open>pthread_join\<close>, from which it does not come
  back: Santa and the elves run \<^verbatim>\<open>while(1)\<close>. \<^verbatim>\<open>E\<close> and \<^verbatim>\<open>N\<close> stand for the
  macros \<^verbatim>\<open>NUM_ELVES\<close> and \<^verbatim>\<open>NUM_REINDEER\<close>.
\<close>

definition launch_threads :: "int \<Rightarrow> int \<Rightarrow> stmt" where
  "launch_threads E N = block
     (fprintf (Pthread_create Santa)
      # map (\<lambda>i. fprintf (Pthread_create (Elf i))) [0..E - 1]
      @ map (\<lambda>i. fprintf (Pthread_create (Reindeer i))) [0..N - 1])"

text \<open>
  \<^verbatim>\<open>main\<close> of \<^verbatim>\<open>part_002\<close>, with the three macros as parameters \<^verbatim>\<open>E\<close>,
  \<^verbatim>\<open>N\<close> and \<^verbatim>\<open>K\<close>. \<^verbatim>\<open>atexit_ok\<close> says whether \<^verbatim>\<open>atexit\<close> returns 0. Where
  the handler could not be registered, \<^verbatim>\<open>main\<close> returns 0 after the teardown.
  The calls of \<^verbatim>\<open>signal\<close>, \<^verbatim>\<open>sem_unpack_set\<close> and \<^verbatim>\<open>srand\<close> change nothing
  of the state and are left out.
\<close>

definition main_with :: "int \<Rightarrow> int \<Rightarrow> int \<Rightarrow> bool \<Rightarrow> stmt" where
  "main_with E N K atexit_ok = block
     [fprintf (Sem_fill_set The_sem_set 7),
      fprintf (Sem_fill_set The_elf_line_set E),
      fprintf (Set_alloc The_elves_waiting E),
      (if atexit_ok then block
         [register_atexit,
          sem_init elf_mutex 1,
          sem_init reindeer_counter_lock 1,
          sem_init elf_counter_lock 1,
          sem_init santa_busy_mutex 1,
          sem_init santa_sleep_mutex 0,
          sem_init reindeer_counting_sem 0,
          sem_init elf_counting_sem (nat K),
          sem_init_all 0,
          launch_threads E N]
       else block
         [fprintf (Stderr Unable_to_register_atexit),
          running free_resources,
          fprintf (Set_free The_elves_waiting),
          running (\<lambda>s. s\<lparr>status := Exited 0\<rparr>)])]"

definition main :: "bool \<Rightarrow> stmt" where
  "main = main_with NUM_ELVES NUM_REINDEER NUM_ELVES_PER_GROUP"

text \<open>The state in which \<^verbatim>\<open>main\<close> starts.\<close>

definition boot :: state where
  "boot = \<lparr>sem_val = (\<lambda>m. 0), held = (\<lambda>a. {}), num_reindeer_waiting = 0,
           num_elves_being_helped = 0, elves_waiting = [], resources_freed = False,
           atexit_registered = False, trace = [], status = Running\<rparr>"

text \<open>The state in which the threads start.\<close>

definition init :: state where
  "init = main True boot"

subsection \<open>Locks held while waiting\<close>

text \<open>
  The locks that guard the shared data: \<^verbatim>\<open>santa_busy_mutex\<close> (the spec's
  CoordinatorGate), \<^verbatim>\<open>reindeer_counter_lock\<close> for \<^verbatim>\<open>num_reindeer_waiting\<close>,
  \<^verbatim>\<open>elf_counter_lock\<close> for \<^verbatim>\<open>num_elves_being_helped\<close> and \<^verbatim>\<open>elf_mutex\<close>
  for \<^verbatim>\<open>elves_waiting\<close>.
\<close>

definition guard_locks :: "sem set" where
  "guard_locks = {santa_busy_mutex, reindeer_counter_lock, elf_counter_lock, elf_mutex}"

text \<open>Thread \<^verbatim>\<open>a\<close> is suspended on a semaphore and holds a guard lock other than that one.\<close>

definition blocks_holding_guard :: "actor \<Rightarrow> state \<Rightarrow> bool" where
  "blocks_holding_guard a s =
     (case status s of
        Blocked m \<Rightarrow> (held s a - {m}) \<inter> guard_locks \<noteq> {}
      | _ \<Rightarrow> False)"

text \<open>The running thread is suspended and another thread gets the processor.\<close>

definition switch_thread :: stmt where
  "switch_thread s = (case status s of Blocked m \<Rightarrow> s\<lparr>status := Running\<rparr> | _ \<Rightarrow> s)"

text \<open>
  A run from the start: elves 0, 1 and 2 get in line one after the other and wait on
  their semaphores, the third having signalled \<^verbatim>\<open>santa_sleep_mutex\<close>; Santa then
  runs his turn up to the \<^verbatim>\<open>if\<close>. This is the state in which he calls
  \<^verbatim>\<open>help_elves\<close>.
\<close>

definition santa_woken_by_three_elves :: state where
  "santa_woken_by_three_elves = block
     [CRITICAL Santa santa_busy_mutex [fprintf (Stdout Santa_sleeping)],
      sem_wait Santa santa_sleep_mutex,
      fprintf (Stdout Santa_Im_up)]
     (switch_thread (elf_iteration 2
       (switch_thread (elf_iteration 1
         (switch_thread (elf_iteration 0 init))))))"

text \<open>
  The statements of one turn of \<^verbatim>\<open>elf\<close> up to the end of the \<^verbatim>\<open>if\<close> in its
  critical section: the elf is in line, has woken Santa if it was the third, and has
  not yet left the critical section.
\<close>

definition elf_in_critical_section :: "int \<Rightarrow> stmt" where
  "elf_in_critical_section ident = block
     [random_wait (Elf_is_working ident),
      fprintf (Stdout (Elf_needs_Santas_help ident)),
      sem_wait (Elf ident) elf_counting_sem,
      sem_wait (Elf ident) elf_mutex,
      set_insert ident,
      fprintf (Stdout (Elf_in_line ident)),
      IF (\<lambda>s. NUM_ELVES_PER_GROUP = set_cardinality s)
        [fprintf (Stdout Elves_waking_up_santa),
         sem_signal (Elf ident) santa_sleep_mutex]
        []]"

text \<open>A statement that does nothing once the thread is suspended or the process has exited.\<close>

definition guarded :: "stmt \<Rightarrow> bool" where
  "guarded c \<longleftrightarrow> (\<forall>s. status s \<noteq> Running \<longrightarrow> c s = s)"

text \<open>
  \<^verbatim>\<open>track a B G c G'\<close>: when thread \<^verbatim>\<open>a\<close> starts statement \<^verbatim>\<open>c\<close> holding no
  guard lock outside \<^verbatim>\<open>G\<close>, then it holds none outside \<^verbatim>\<open>G'\<close> when \<^verbatim>\<open>c\<close> is
  done, and none outside \<^verbatim>\<open>B\<close>, apart from the semaphore it waits for, when
  \<^verbatim>\<open>c\<close> has to wait.
\<close>

definition track :: "actor \<Rightarrow> sem set \<Rightarrow> sem set \<Rightarrow> stmt \<Rightarrow> sem set \<Rightarrow> bool" where
  "track a B G c G' \<longleftrightarrow>
     (\<forall>s. status s = Running \<and> held s a \<inter> guard_locks \<subseteq> G \<longrightarrow>
        (status (c s) = Running \<longrightarrow> held (c s) a \<inter> guard_locks \<subseteq> G') \<and>
        (\<forall>m. status (c s) = Blocked m \<longrightarrow> (held (c s) a - {m}) \<inter> guard_locks \<subseteq> B))"

subsection \<open>The reindeer after Santa has prepared the sleigh\<close>

text \<open>
  What holds of the reindeer threads from the moment Santa has run
  \<^verbatim>\<open>prepare_sleigh\<close>: every reindeer is at statement 2 or 3 (back, not hitched),
  at statement 4 (it has taken its credit) or at 5 (it has left); the credits left are
  those of the reindeer at 2 and 3; the counter counts the reindeer that have not left.
\<close>

definition departing :: "config \<Rightarrow> bool" where
  "departing c \<longleftrightarrow>
     (\<forall>r \<in> set [0..NUM_REINDEER - 1]. reindeer_pc c r \<in> {2, 3, 4, 5}) \<and>
     reindeer_at c 2 + reindeer_at c 3 + reindeer_at c 4 + reindeer_at c 5 = nat NUM_REINDEER \<and>
     (case status (shared c) of
        Running \<Rightarrow>
          sem_val (shared c) reindeer_counting_sem = reindeer_at c 2 + reindeer_at c 3
          \<and> num_reindeer_waiting (shared c) = int (reindeer_at c 2 + reindeer_at c 3 + reindeer_at c 4)
          \<and> 0 < reindeer_at c 2 + reindeer_at c 3 + reindeer_at c 4
          \<and> sem_val (shared c) reindeer_counter_lock \<noteq> 0
      | Exited code \<Rightarrow>
          code = EXIT_SUCCESS \<and> reindeer_at c 5 = nat NUM_REINDEER
          \<and> num_reindeer_waiting (shared c) = 0
          \<and> sem_val (shared c) reindeer_counting_sem = 0
      | _ \<Rightarrow> False)"

subsection \<open>What can be observed of a run\<close>

definition stderr_output :: "state \<Rightarrow> msg list" where
  "stderr_output s = concat (map (\<lambda>e. case e of Stderr m \<Rightarrow> [m] | _ \<Rightarrow> []) (trace s))"

definition threads_launched :: "state \<Rightarrow> actor list" where
  "threads_launched s =
     concat (map (\<lambda>e. case e of Pthread_create a \<Rightarrow> [a] | _ \<Rightarrow> []) (trace s))"

text \<open>The reindeer that have printed \<^verbatim>\<open>I'm the last one; I'll get santa!\<close>, in order.\<close>

definition last_ones :: "state \<Rightarrow> int list" where
  "last_ones s =
     concat (map (\<lambda>e. case e of Stdout (Reindeer_Im_the_last_one r) \<Rightarrow> [r] | _ \<Rightarrow> [])
       (trace s))"

section \<open>Properties\<close>

declare help_loop.simps [simp del]
declare delay_loop.simps [simp del]

lemmas prims = running_def sem_wait_def sem_signal_ntimes_def sem_signal_def sem_wait_index_def
  sem_signal_index_def CRITICAL_def fprintf_def IF_def set_insert_def
  assign_num_elves_being_helped_def assign_num_reindeer_waiting_def sem_init_def sem_init_all_def
  register_atexit_def random_wait_def get_hitched_def exit_process_def

lemmas macros = NUM_ELVES_def NUM_REINDEER_def NUM_ELVES_PER_GROUP_def EXIT_SUCCESS_def

subsection \<open>The state in which the threads start\<close>

lemma init_value: "init =
   \<lparr>sem_val = (\<lambda>m. case m of
        elf_mutex \<Rightarrow> 1 | reindeer_counter_lock \<Rightarrow> 1 | elf_counter_lock \<Rightarrow> 1
      | santa_busy_mutex \<Rightarrow> 1 | elf_counting_sem \<Rightarrow> 3 | _ \<Rightarrow> 0),
    held = (\<lambda>a. {}), num_reindeer_waiting = 0, num_elves_being_helped = 0,
    elves_waiting = [], resources_freed = False, atexit_registered = True,
    trace = [Sem_fill_set The_sem_set 7, Sem_fill_set The_elf_line_set 9,
             Set_alloc The_elves_waiting 9, Pthread_create Santa]
            @ map (\<lambda>i. Pthread_create (Elf i)) [0, 1, 2, 3, 4, 5, 6, 7, 8]
            @ map (\<lambda>i. Pthread_create (Reindeer i)) [0, 1, 2, 3, 4, 5, 6, 7, 8, 9],
    status = Running\<rparr>"
  by (simp add: init_def main_def main_with_def boot_def launch_threads_def macros upto_rec1 prims
      fun_eq_iff split: sem.split)

lemma init_fields:
  "status init = Running"
  "sem_val init santa_busy_mutex = 1"
  "sem_val init santa_sleep_mutex = 0"
  "sem_val init reindeer_counting_sem = 0"
  "sem_val init reindeer_counter_lock = 1"
  "sem_val init elf_counting_sem = 3"
  "sem_val init elf_mutex = 1"
  "sem_val init elf_counter_lock = 1"
  "sem_val init (elf_line_set i) = 0"
  "held init a = {}"
  "num_reindeer_waiting init = 0"
  "num_elves_being_helped init = 0"
  "elves_waiting init = []"
  "resources_freed init = False"
  "atexit_registered init = True"
  by (simp_all add: init_value)

subsection \<open>The delay loop\<close>

lemma delay_loop_count: "delay_loop i n = n + unat (i - 1)"
proof (induction i n rule: delay_loop.induct)
  case (1 i n)
  define x where "x = i - 1"
  show ?case
  proof (cases "x = 0")
    case True
    then have "delay_loop i n = n"
      by (subst delay_loop.simps) (simp add: Let_def x_def)
    with True show ?thesis by (simp add: x_def)
  next
    case False
    then have "unat (x - 1) = unat x - 1" "0 < unat x"
      using unat_minus_one [of x] unat_gt_0 [of x] by simp_all
    moreover have "delay_loop i n = delay_loop x (Suc n)"
      using False by (subst delay_loop.simps) (simp add: Let_def x_def)
    moreover have "delay_loop x (Suc n) = Suc n + unat (x - 1)"
      using 1 [of x] False by (simp add: x_def)
    ultimately show ?thesis by (simp add: x_def)
  qed
qed

lemma MAX_WAIT_TIME_value: "MAX_WAIT_TIME = 134217727"
  by (simp add: MAX_WAIT_TIME_def INT_MAX_def drop_bit_eq_div)

lemma unat_word_of_small:
  assumes "0 \<le> v" and "v < 134217727"
  shows "unat (word_of_int v :: 32 word) = nat v"
proof -
  have "v < 2 ^ 32" using assms by simp
  then have "take_bit 32 v = v" using assms by (simp add: take_bit_int_eq_self)
  then show ?thesis
    by (simp add: unat_eq_nat_uint uint_word_of_int_eq)
qed

lemma unat_random_wait_draw: "unat (random_wait_draw r) = nat (r mod MAX_WAIT_TIME)"
  unfolding random_wait_draw_def
  by (rule unat_word_of_small) (simp_all add: MAX_WAIT_TIME_value)

lemma unat_all_ones: "unat (- 1 :: 32 word) = 2 ^ 32 - 1"
  by (simp add: unsigned_minus_1_eq_mask mask_eq_exp_minus_1)

lemma random_wait_iterations_zero:
  assumes "r mod MAX_WAIT_TIME = 0"
  shows "random_wait_iterations r = 2 ^ 32 - 1"
proof -
  have "random_wait_draw r = 0" using assms by (simp add: random_wait_draw_def)
  then have "random_wait_iterations r = unat (0 - 1 :: 32 word)"
    by (simp only: random_wait_iterations_def delay_loop_count add_0)
  then show ?thesis using unat_all_ones by simp
qed

lemma random_wait_iterations_pos:
  assumes "r mod MAX_WAIT_TIME \<noteq> 0"
  shows "random_wait_iterations r = nat (r mod MAX_WAIT_TIME) - 1"
proof -
  have "0 \<le> r mod MAX_WAIT_TIME" by (simp add: MAX_WAIT_TIME_value)
  with assms have "unat (random_wait_draw r) \<noteq> 0"
    using unat_random_wait_draw [of r] by simp
  then have "random_wait_draw r \<noteq> 0" by auto
  then have "unat (random_wait_draw r - 1) = unat (random_wait_draw r) - 1"
    by (rule unat_minus_one)
  then show ?thesis
    by (simp only: random_wait_iterations_def delay_loop_count add_0 unat_random_wait_draw)
qed

lemma random_wait_iterations_bound: "random_wait_iterations r \<le> 2 ^ 32 - 1"
proof (cases "r mod MAX_WAIT_TIME = 0")
  case True
  then show ?thesis by (simp only: random_wait_iterations_zero)
next
  case False
  have "r mod MAX_WAIT_TIME < 134217727" by (simp add: MAX_WAIT_TIME_value)
  then have "nat (r mod MAX_WAIT_TIME) - 1 \<le> (2 ^ 32 - 1 :: nat)" by simp
  moreover from False
  have "random_wait_iterations r = nat (r mod MAX_WAIT_TIME) - 1"
    by (rule random_wait_iterations_pos)
  ultimately show ?thesis by (simp only:)
qed

text \<open>
  C10: the delay loop of \<^verbatim>\<open>random_wait\<close> always ends (\<^verbatim>\<open>delay_loop\<close> is a total
  function), and the number of times it goes round is not monotone in the value drawn.
  For a draw \<^verbatim>\<open>v > 0\<close> it goes round \<^verbatim>\<open>v - 1\<close> times. For the draw 0 the
  decrement wraps to \<^verbatim>\<open>2^32 - 1\<close> and the loop goes round \<^verbatim>\<open>2^32 - 1\<close> times, and no
  other draw waits longer. \<^verbatim>\<open>r\<close> and \<^verbatim>\<open>r'\<close> are values of \<^verbatim>\<open>rand()\<close>.
\<close>

theorem random_wait_iterations_by_draw:
  assumes "0 \<le> r" and "0 \<le> r'"
  shows "(r mod MAX_WAIT_TIME \<noteq> 0 \<longrightarrow>
            random_wait_iterations r = nat (r mod MAX_WAIT_TIME) - 1)
       \<and> (r mod MAX_WAIT_TIME = 0 \<longrightarrow>
            unat (random_wait_draw r - 1) = 2 ^ 32 - 1
          \<and> random_wait_iterations r = 2 ^ 32 - 1
          \<and> random_wait_iterations r' \<le> random_wait_iterations r)"
proof (intro conjI impI)
  assume "r mod MAX_WAIT_TIME \<noteq> 0"
  then show "random_wait_iterations r = nat (r mod MAX_WAIT_TIME) - 1"
    by (rule random_wait_iterations_pos)
next
  assume z: "r mod MAX_WAIT_TIME = 0"
  then have "random_wait_draw r = 0" by (simp add: random_wait_draw_def)
  then show "unat (random_wait_draw r - 1) = 2 ^ 32 - 1"
    using unat_all_ones by simp
  from z show "random_wait_iterations r = 2 ^ 32 - 1"
    by (rule random_wait_iterations_zero)
  from z have "random_wait_iterations r = 2 ^ 32 - 1"
    by (rule random_wait_iterations_zero)
  then show "random_wait_iterations r' \<le> random_wait_iterations r"
    using random_wait_iterations_bound [of r'] by (simp only:)
qed

theorem random_wait_iterations_by_draw_witness:
  "random_wait_iterations 0 = 4294967295 \<and> random_wait_iterations 1 = 0
   \<and> random_wait_iterations 1 \<le> random_wait_iterations 0"
  using random_wait_iterations_by_draw [of 0 1] random_wait_iterations_by_draw [of 1 0]
  by (simp add: MAX_WAIT_TIME_value)

subsection \<open>Teardown\<close>

lemma free_resources_printing_twice:
  "free_resources_printing m (free_resources_printing m s) = free_resources_printing m s"
  by (simp add: free_resources_printing_def)

text \<open>
  C8: the teardown is idempotent. A second call of \<^verbatim>\<open>free_resources\<close> leaves the
  state as the first call left it: it frees nothing and prints nothing. This holds of
  both versions.
\<close>

theorem free_resources_idempotent:
  "free_resources (free_resources s) = free_resources s
   \<and> trace (free_resources (free_resources s)) = trace (free_resources s)
   \<and> trunk_free_resources (trunk_free_resources s) = trunk_free_resources s"
  by (simp add: free_resources_def trunk_free_resources_def free_resources_printing_twice)

theorem free_resources_idempotent_witness:
  "free_resources (free_resources init) = free_resources init
   \<and> trace (free_resources init) = trace init @
       [Stdout Merry_Christmas_indeed, Sem_empty_set The_sem_set,
        Sem_empty_set The_elf_line_set, Set_exit_free The_elves_waiting]
   \<and> trace (free_resources (free_resources init)) = trace (free_resources init)"
  using free_resources_idempotent [of init]
  by (simp add: free_resources_def free_resources_printing_def init_fields)

subsection \<open>Elves\<close>

text \<open>
  C7: the elf whose decrement brings \<^verbatim>\<open>num_elves_being_helped\<close> to 0 signals
  \<^verbatim>\<open>santa_busy_mutex\<close> once and gives \<^verbatim>\<open>NUM_ELVES_PER_GROUP\<close> credits back to
  \<^verbatim>\<open>elf_counting_sem\<close>; an elf whose decrement leaves another value signals neither.
  The elf is running, the lock is free, and the decrement does not overflow.
\<close>

theorem get_help_releases_at_zero:
  assumes "status s = Running" and "sem_val s elf_counter_lock \<noteq> 0"
    and "- INT_MAX \<le> num_elves_being_helped s"
  shows "status (get_help ident s) = Running
    \<and> num_elves_being_helped (get_help ident s) = num_elves_being_helped s - 1
    \<and> sem_val (get_help ident s) santa_busy_mutex =
        sem_val s santa_busy_mutex + (if num_elves_being_helped s - 1 = 0 then 1 else 0)
    \<and> sem_val (get_help ident s) elf_counting_sem =
        sem_val s elf_counting_sem
        + (if num_elves_being_helped s - 1 = 0 then nat NUM_ELVES_PER_GROUP else 0)
    \<and> sem_val (get_help ident s) elf_counter_lock = sem_val s elf_counter_lock"
  using assms(1,2) by (simp add: get_help_def prims)

theorem get_help_releases_at_zero_witness:
  "sem_val (get_help 4 (init\<lparr>num_elves_being_helped := 1\<rparr>)) santa_busy_mutex = 2
   \<and> sem_val (get_help 4 (init\<lparr>num_elves_being_helped := 1\<rparr>)) elf_counting_sem = 6
   \<and> sem_val (get_help 4 (init\<lparr>num_elves_being_helped := 2\<rparr>)) santa_busy_mutex = 1
   \<and> sem_val (get_help 4 (init\<lparr>num_elves_being_helped := 2\<rparr>)) elf_counting_sem = 3"
  using get_help_releases_at_zero [of "init\<lparr>num_elves_being_helped := 1\<rparr>" 4]
    get_help_releases_at_zero [of "init\<lparr>num_elves_being_helped := 2\<rparr>" 4]
  by (simp add: init_fields INT_MAX_def NUM_ELVES_PER_GROUP_def)

text \<open>
  C6: an elf signals \<^verbatim>\<open>santa_sleep_mutex\<close> when, and only when, its own insertion
  makes the cardinality of \<^verbatim>\<open>elves_waiting\<close> equal to \<^verbatim>\<open>NUM_ELVES_PER_GROUP\<close>: the
  third of a group does, the first and the second do not. The elf is running, is not
  yet in the set, and \<^verbatim>\<open>elf_mutex\<close> is free.
\<close>

theorem elf_wakes_santa_on_third_join:
  assumes "status s = Running" and "sem_val s elf_mutex \<noteq> 0"
    and "ident \<notin> set (elves_waiting s)"
  shows "status (elf_get_in_line ident s) = Running
    \<and> elves_waiting (elf_get_in_line ident s) = elves_waiting s @ [ident]
    \<and> sem_val (elf_get_in_line ident s) santa_sleep_mutex =
        sem_val s santa_sleep_mutex
        + (if set_cardinality s + 1 = NUM_ELVES_PER_GROUP then 1 else 0)
    \<and> trace (elf_get_in_line ident s) =
        trace s @ Stdout (Elf_in_line ident)
          # (if set_cardinality s + 1 = NUM_ELVES_PER_GROUP
             then [Stdout Elves_waking_up_santa] else [])"
  using assms(1,2) by (simp add: elf_get_in_line_def prims macros set_cardinality_def)

theorem elf_wakes_santa_on_third_join_witness:
  "sem_val (elf_get_in_line 0 init) santa_sleep_mutex = 0
   \<and> sem_val (elf_get_in_line 1 (init\<lparr>elves_waiting := [0]\<rparr>)) santa_sleep_mutex = 0
   \<and> sem_val (elf_get_in_line 2 (init\<lparr>elves_waiting := [0, 1]\<rparr>)) santa_sleep_mutex = 1"
  using elf_wakes_santa_on_third_join [of init 0]
    elf_wakes_santa_on_third_join [of "init\<lparr>elves_waiting := [0]\<rparr>" 1]
    elf_wakes_santa_on_third_join [of "init\<lparr>elves_waiting := [0, 1]\<rparr>" 2]
  by (simp add: init_fields set_cardinality_def NUM_ELVES_PER_GROUP_def)

subsection \<open>The batch of reindeer\<close>

lemma count_absent:
  "x \<notin> set xs \<Longrightarrow>
   length (filter (\<lambda>r. (pc(x := b)) r = k) xs) = length (filter (\<lambda>r. pc r = k) xs)"
  by (induction xs) auto

lemma count_moved:
  assumes "distinct xs" and "x \<in> set xs" and "pc x = a" and "a \<noteq> b"
  shows "length (filter (\<lambda>r. (pc(x := b)) r = b) xs) = Suc (length (filter (\<lambda>r. pc r = b) xs))
    \<and> Suc (length (filter (\<lambda>r. (pc(x := b)) r = a) xs)) = length (filter (\<lambda>r. pc r = a) xs)"
  using assms
proof (induction xs)
  case Nil
  then show ?case by simp
next
  case (Cons y ys)
  show ?case
  proof (cases "y = x")
    case True
    with Cons.prems have "x \<notin> set ys" by simp
    then show ?thesis
      using True Cons.prems count_absent [of x ys pc b b] count_absent [of x ys pc b a]
      by simp
  next
    case False
    with Cons show ?thesis by simp
  qed
qed

lemma count_kept:
  assumes "pc x \<noteq> k" and "b \<noteq> k"
  shows "length (filter (\<lambda>r. (pc(x := b)) r = k) xs) = length (filter (\<lambda>r. pc r = k) xs)"
  using assms by (induction xs) auto

lemma count_two_places:
  "\<forall>x \<in> set xs. f x = (2::nat) \<or> f x = 3 \<Longrightarrow>
   length (filter (\<lambda>r. f r = 2) xs) + length (filter (\<lambda>r. f r = 3) xs) = length xs
   \<and> length (filter (\<lambda>r. f r = 4) xs) = 0 \<and> length (filter (\<lambda>r. f r = 5) xs) = 0"
  by (induction xs) auto

lemma reindeer_at_moved:
  assumes "x \<in> set [0..NUM_REINDEER - 1]" and "reindeer_pc c x = a" and "a \<noteq> b"
  shows "reindeer_at (c\<lparr>shared := s', reindeer_pc := (reindeer_pc c)(x := b)\<rparr>) b
           = Suc (reindeer_at c b)"
    and "Suc (reindeer_at (c\<lparr>shared := s', reindeer_pc := (reindeer_pc c)(x := b)\<rparr>) a)
           = reindeer_at c a"
  using count_moved [of "[0..NUM_REINDEER - 1]" x "reindeer_pc c" a b] assms
  by (simp_all add: reindeer_at_def del: fun_upd_apply)

lemma reindeer_at_kept:
  assumes "reindeer_pc c x \<noteq> k" and "b \<noteq> k"
  shows "reindeer_at (c\<lparr>shared := s', reindeer_pc := (reindeer_pc c)(x := b)\<rparr>) k
           = reindeer_at c k"
  using count_kept [of "reindeer_pc c" x k b] assms
  by (simp add: reindeer_at_def del: fun_upd_apply)

text \<open>The effect of the last three statements of \<^verbatim>\<open>reindeer_code\<close>.\<close>

lemma reindeer_notifies:
  assumes "status s = Running"
  shows "status ((reindeer_code r ! 2) s) = Running"
    and "sem_val ((reindeer_code r ! 2) s) reindeer_counting_sem = sem_val s reindeer_counting_sem"
    and "sem_val ((reindeer_code r ! 2) s) reindeer_counter_lock = sem_val s reindeer_counter_lock"
    and "num_reindeer_waiting ((reindeer_code r ! 2) s) = num_reindeer_waiting s"
  using assms by (simp_all add: reindeer_code_def prims)

lemma reindeer_takes_credit:
  assumes "status s = Running"
  shows "sem_val s reindeer_counting_sem = 0 \<Longrightarrow>
      status ((reindeer_code r ! 3) s) = Blocked reindeer_counting_sem"
    and "sem_val s reindeer_counting_sem \<noteq> 0 \<Longrightarrow> status ((reindeer_code r ! 3) s) = Running"
    and "sem_val s reindeer_counting_sem \<noteq> 0 \<Longrightarrow>
      sem_val ((reindeer_code r ! 3) s) reindeer_counting_sem = sem_val s reindeer_counting_sem - 1"
    and "sem_val ((reindeer_code r ! 3) s) reindeer_counter_lock = sem_val s reindeer_counter_lock"
    and "num_reindeer_waiting ((reindeer_code r ! 3) s) = num_reindeer_waiting s"
  using assms by (simp_all add: reindeer_code_def prims)

lemma reindeer_leaves:
  assumes "status s = Running" and "sem_val s reindeer_counter_lock \<noteq> 0"
  shows "status ((reindeer_code r ! 4) s) =
      (if num_reindeer_waiting s - 1 = 0 then Exited EXIT_SUCCESS else Running)"
    and "sem_val ((reindeer_code r ! 4) s) reindeer_counting_sem = sem_val s reindeer_counting_sem"
    and "num_reindeer_waiting s - 1 \<noteq> 0 \<Longrightarrow>
       sem_val ((reindeer_code r ! 4) s) reindeer_counter_lock = sem_val s reindeer_counter_lock"
    and "num_reindeer_waiting ((reindeer_code r ! 4) s) = num_reindeer_waiting s - 1"
  using assms
  by (simp_all add: reindeer_code_def prims free_resources_def free_resources_printing_def)

lemma reindeer_step_SomeD:
  assumes "reindeer_step r c = Some c'"
  shows "status (shared c) = Running"
    and "reindeer_pc c r < 5"
    and "c' = c\<lparr>shared := (reindeer_code r ! reindeer_pc c r) (shared c),
                 reindeer_pc := (reindeer_pc c)(r := reindeer_pc c r + 1)\<rparr>"
    and "\<forall>m. status ((reindeer_code r ! reindeer_pc c r) (shared c)) \<noteq> Blocked m"
  using assms
  by (auto simp: reindeer_step_def Let_def reindeer_code_def split: if_splits status.splits)

lemma departing_step:
  assumes inv: "departing c" and r: "r \<in> set [0..NUM_REINDEER - 1]"
    and step: "reindeer_step r c = Some c'"
  shows "departing c'"
proof -
  define s where "s = shared c"
  define k where "k = reindeer_pc c r"
  define s' where "s' = (reindeer_code r ! k) s"
  note D = reindeer_step_SomeD [OF step, folded s_def k_def, folded s'_def]
  have run: "status s = Running" by (rule D(1))
  have c': "c' = c\<lparr>shared := s', reindeer_pc := (reindeer_pc c)(r := k + 1)\<rparr>" by (rule D(3))
  from inv r have "k \<in> {2, 3, 4, 5}" by (simp add: departing_def k_def)
  with D(2) have k: "k = 2 \<or> k = 3 \<or> k = 4" by auto
  have pcs: "\<forall>x \<in> set [0..NUM_REINDEER - 1]. reindeer_pc c' x \<in> {2, 3, 4, 5}"
    using inv k by (auto simp: departing_def c')
  from inv run have I:
    "reindeer_at c 2 + reindeer_at c 3 + reindeer_at c 4 + reindeer_at c 5 = nat NUM_REINDEER"
    "sem_val s reindeer_counting_sem = reindeer_at c 2 + reindeer_at c 3"
    "num_reindeer_waiting s = int (reindeer_at c 2 + reindeer_at c 3 + reindeer_at c 4)"
    "0 < reindeer_at c 2 + reindeer_at c 3 + reindeer_at c 4"
    "sem_val s reindeer_counter_lock \<noteq> 0"
    by (simp_all add: departing_def s_def)
  have kr: "reindeer_pc c r = k" by (simp add: k_def)
  note moved = reindeer_at_moved [OF r kr, of "k + 1" s', folded c', simplified]
  have kept: "j \<noteq> k \<Longrightarrow> j \<noteq> k + 1 \<Longrightarrow> reindeer_at c' j = reindeer_at c j" for j
    using reindeer_at_kept [of c r j "k + 1" s'] by (simp add: c' kr)
  have sh: "shared c' = s'" by (simp add: c')
  from k show ?thesis
  proof (elim disjE)
    assume k2: "k = 2"
    have at: "reindeer_at c' 3 = Suc (reindeer_at c 3)" "Suc (reindeer_at c' 2) = reindeer_at c 2"
      "reindeer_at c' 4 = reindeer_at c 4" "reindeer_at c' 5 = reindeer_at c 5"
      using moved kept [of 4] kept [of 5] by (simp_all add: k2)
    with pcs I reindeer_notifies [OF run, of r] sh show ?thesis
      by (simp add: departing_def s'_def k2)
  next
    assume k3: "k = 3"
    have at: "reindeer_at c' 4 = Suc (reindeer_at c 4)" "Suc (reindeer_at c' 3) = reindeer_at c 3"
      "reindeer_at c' 2 = reindeer_at c 2" "reindeer_at c' 5 = reindeer_at c 5"
      using moved kept [of 2] kept [of 5] by (simp_all add: k3)
    have credit: "sem_val s reindeer_counting_sem \<noteq> 0"
      using D(4) reindeer_takes_credit(1) [OF run, of r] by (auto simp: s'_def k3)
    with pcs at I reindeer_takes_credit [OF run, of r] sh show ?thesis
      by (simp add: departing_def s'_def k3)
  next
    assume k4: "k = 4"
    have at: "reindeer_at c' 5 = Suc (reindeer_at c 5)" "Suc (reindeer_at c' 4) = reindeer_at c 4"
      "reindeer_at c' 2 = reindeer_at c 2" "reindeer_at c' 3 = reindeer_at c 3"
      using moved kept [of 2] kept [of 3] by (simp_all add: k4)
    show ?thesis
    proof (cases "num_reindeer_waiting s - 1 = 0")
      case True
      with pcs at I reindeer_leaves [OF run I(5), of r] sh show ?thesis
        by (simp add: departing_def s'_def k4)
    next
      case False
      with pcs at I reindeer_leaves [OF run I(5), of r] sh show ?thesis
        by (simp add: departing_def s'_def k4) arith
    qed
  qed
qed

lemma departing_run:
  "departing c \<Longrightarrow> set sched \<subseteq> set [0..NUM_REINDEER - 1] \<Longrightarrow>
   run_reindeer sched c = Some c' \<Longrightarrow> departing c'"
proof (induction sched arbitrary: c)
  case Nil
  then show ?case by simp
next
  case (Cons r rs)
  from Cons.prems(3) obtain c1
    where c1: "reindeer_step r c = Some c1" "run_reindeer rs c1 = Some c'"
    by (auto split: option.splits)
  from Cons.prems(2)
  have "r \<in> set [0..NUM_REINDEER - 1]" "set rs \<subseteq> set [0..NUM_REINDEER - 1]"
    by simp_all
  with Cons.IH [of c1] departing_step [OF Cons.prems(1) _ c1(1)] c1(2) show ?case by blast
qed

lemma prepare_sleigh_effect:
  assumes "status s = Running" and "sem_val s santa_busy_mutex \<noteq> 0"
  shows "status (prepare_sleigh s) = Running"
    and "sem_val (prepare_sleigh s) reindeer_counting_sem
           = sem_val s reindeer_counting_sem + nat NUM_REINDEER"
    and "sem_val (prepare_sleigh s) reindeer_counter_lock = sem_val s reindeer_counter_lock"
    and "num_reindeer_waiting (prepare_sleigh s) = num_reindeer_waiting s"
    and "trace (prepare_sleigh s) = trace s @ [Stdout Santa_preparing_the_sleigh]"
  using assms by (simp_all add: prepare_sleigh_def prims)

lemma departing_start:
  assumes "status s = Running" and "sem_val s santa_busy_mutex \<noteq> 0"
    and "sem_val s reindeer_counting_sem = 0" and "sem_val s reindeer_counter_lock \<noteq> 0"
    and "shared c = block [assign_num_reindeer_waiting NUM_REINDEER, prepare_sleigh] s"
    and "\<forall>r \<in> set [0..NUM_REINDEER - 1]. reindeer_pc c r = 2 \<or> reindeer_pc c r = 3"
  shows "departing c"
proof -
  define s1 where "s1 = s\<lparr>num_reindeer_waiting := NUM_REINDEER\<rparr>"
  have s1: "status s1 = Running" "sem_val s1 = sem_val s" "num_reindeer_waiting s1 = NUM_REINDEER"
    by (simp_all add: s1_def assms(1))
  have sh: "shared c = prepare_sleigh s1"
    using assms(1) by (simp add: assms(5) s1_def assign_num_reindeer_waiting_def running_def)
  note P = prepare_sleigh_effect [of s1, unfolded s1, OF refl assms(2), folded sh]
  note cnt = count_two_places [OF assms(6), folded reindeer_at_def]
  have len: "length [0..NUM_REINDEER - 1] = nat NUM_REINDEER" by (simp add: NUM_REINDEER_def)
  show ?thesis
    using P cnt assms(3,4,6) len s1(3) unfolding departing_def
    by (auto simp: NUM_REINDEER_def)
qed

text \<open>
  C5: in a batch Santa releases \<^verbatim>\<open>reindeer_counting_sem\<close> exactly
  \<^verbatim>\<open>NUM_REINDEER\<close> = 10 times; each reindeer that goes on takes one credit; and the
  process exits with success exactly when the last of the ten has left, which is when
  \<^verbatim>\<open>num_reindeer_waiting\<close> reaches 0. \<^verbatim>\<open>s\<close> is the state in which Santa finds
  all reindeer back, \<^verbatim>\<open>c\<close> the threads when he has run \<^verbatim>\<open>prepare_sleigh\<close>, with
  every reindeer back and none hitched, and \<^verbatim>\<open>c'\<close> what any run of the reindeer
  threads leads to from there.
\<close>

theorem batch_exactness:
  assumes "status s = Running" and "NUM_REINDEER \<le> num_reindeer_waiting s"
    and "sem_val s santa_busy_mutex \<noteq> 0"
    and "sem_val s reindeer_counting_sem = 0" and "sem_val s reindeer_counter_lock \<noteq> 0"
    and "shared c = block [assign_num_reindeer_waiting NUM_REINDEER, prepare_sleigh] s"
    and "\<forall>r \<in> set [0..NUM_REINDEER - 1]. reindeer_pc c r = 2 \<or> reindeer_pc c r = 3"
    and "set sched \<subseteq> set [0..NUM_REINDEER - 1]"
    and "run_reindeer sched c = Some c'"
  shows "santa_awake s =
           block [sem_wait Santa santa_busy_mutex, sem_wait Santa santa_sleep_mutex] (shared c)
    \<and> sem_val (shared c) reindeer_counting_sem = nat NUM_REINDEER
    \<and> sem_val (shared c') reindeer_counting_sem + reindeer_at c' 4 + reindeer_at c' 5
        = nat NUM_REINDEER
    \<and> num_reindeer_waiting (shared c') = NUM_REINDEER - int (reindeer_at c' 5)
    \<and> (status (shared c') = Exited EXIT_SUCCESS \<longleftrightarrow> reindeer_at c' 5 = nat NUM_REINDEER)
    \<and> (status (shared c') = Exited EXIT_SUCCESS \<longleftrightarrow> num_reindeer_waiting (shared c') = 0)
    \<and> (status (shared c') = Running \<or> status (shared c') = Exited EXIT_SUCCESS)"
proof -
  have start: "departing c" by (rule departing_start [OF assms(1,3,4,5,6,7)])
  have fin: "departing c'" by (rule departing_run [OF start assms(8,9)])
  have 1: "santa_awake s =
           block [sem_wait Santa santa_busy_mutex, sem_wait Santa santa_sleep_mutex] (shared c)"
    using assms(1,2) by (simp add: santa_awake_def IF_def running_def assms(6))
  have run0: "status (shared c) = Running"
    using assms(1,3)
    by (simp add: assms(6) assign_num_reindeer_waiting_def running_def prepare_sleigh_effect(1))
  have len: "length [0..NUM_REINDEER - 1] = nat NUM_REINDEER" by (simp add: NUM_REINDEER_def)
  have 2: "sem_val (shared c) reindeer_counting_sem = nat NUM_REINDEER"
    using start run0 count_two_places [OF assms(7), folded reindeer_at_def] len
    by (simp add: departing_def)
  have 3: "sem_val (shared c') reindeer_counting_sem + reindeer_at c' 4 + reindeer_at c' 5
        = nat NUM_REINDEER
    \<and> num_reindeer_waiting (shared c') = NUM_REINDEER - int (reindeer_at c' 5)
    \<and> (status (shared c') = Exited EXIT_SUCCESS \<longleftrightarrow> reindeer_at c' 5 = nat NUM_REINDEER)
    \<and> (status (shared c') = Exited EXIT_SUCCESS \<longleftrightarrow> num_reindeer_waiting (shared c') = 0)
    \<and> (status (shared c') = Running \<or> status (shared c') = Exited EXIT_SUCCESS)"
    using fin unfolding departing_def
    by (cases "status (shared c')") (auto simp: NUM_REINDEER_def)
  from 1 2 3 show ?thesis by blast
qed

text \<open>
  All ten reindeer take their credit and then leave one after the other: the process
  has exited with success, and all ten have left.
\<close>

theorem batch_exactness_witness:
  "\<exists>c'. run_reindeer [0, 1, 2, 3, 4, 5, 6, 7, 8, 9, 0, 1, 2, 3, 4, 5, 6, 7, 8, 9]
          \<lparr>shared = block [assign_num_reindeer_waiting NUM_REINDEER, prepare_sleigh]
                      (init\<lparr>num_reindeer_waiting := 10\<rparr>),
           reindeer_pc = (\<lambda>r. 3)\<rparr> = Some c'
        \<and> num_reindeer_waiting (shared c') = 0
        \<and> status (shared c') = Exited EXIT_SUCCESS
        \<and> reindeer_at c' 5 = 10
        \<and> sem_val (shared c') reindeer_counting_sem = 0"
proof -
  define s where "s = init\<lparr>num_reindeer_waiting := 10\<rparr>"
  define c where "c = \<lparr>shared = block [assign_num_reindeer_waiting NUM_REINDEER, prepare_sleigh] s,
                        reindeer_pc = (\<lambda>r. 3)\<rparr>"
  define sched :: "int list"
    where "sched = [0, 1, 2, 3, 4, 5, 6, 7, 8, 9, 0, 1, 2, 3, 4, 5, 6, 7, 8, 9]"
  have "map_option (\<lambda>c'. num_reindeer_waiting (shared c')) (run_reindeer sched c) = Some 0"
    by (simp add: c_def s_def sched_def reindeer_step_def Let_def reindeer_code_def
        prepare_sleigh_def prims macros init_value free_resources_def free_resources_printing_def)
  then obtain c' where c': "run_reindeer sched c = Some c'" "num_reindeer_waiting (shared c') = 0"
    by auto
  have hyps: "status s = Running" "NUM_REINDEER \<le> num_reindeer_waiting s"
    "sem_val s santa_busy_mutex \<noteq> 0" "sem_val s reindeer_counting_sem = 0"
    "sem_val s reindeer_counter_lock \<noteq> 0"
    "shared c = block [assign_num_reindeer_waiting NUM_REINDEER, prepare_sleigh] s"
    "\<forall>r \<in> set [0..NUM_REINDEER - 1]. reindeer_pc c r = 2 \<or> reindeer_pc c r = 3"
    "set sched \<subseteq> set [0..NUM_REINDEER - 1]"
    by (simp_all add: s_def c_def sched_def init_fields NUM_REINDEER_def)
  from batch_exactness [OF hyps c'(1)] c'
  have "run_reindeer sched c = Some c' \<and> num_reindeer_waiting (shared c') = 0
        \<and> status (shared c') = Exited EXIT_SUCCESS
        \<and> reindeer_at c' 5 = 10
        \<and> sem_val (shared c') reindeer_counting_sem = 0"
    by (simp add: NUM_REINDEER_def)
  then show ?thesis unfolding c_def s_def sched_def by blast
qed

subsection \<open>Santa's choice\<close>

lemma sem_wait_frame:
  "elves_waiting (sem_wait a m s) = elves_waiting s"
  "num_elves_being_helped (sem_wait a m s) = num_elves_being_helped s"
  "num_reindeer_waiting (sem_wait a m s) = num_reindeer_waiting s"
  "trace (sem_wait a m s) = trace s"
  "m' \<noteq> m \<Longrightarrow> sem_val (sem_wait a m s) m' = sem_val s m'"
  by (simp_all add: sem_wait_def running_def)

lemma prepare_sleigh_frame:
  "elves_waiting (prepare_sleigh s) = elves_waiting s"
  "num_elves_being_helped (prepare_sleigh s) = num_elves_being_helped s"
  "sem_val (prepare_sleigh s) (elf_line_set i) = sem_val s (elf_line_set i)"
  "trace (prepare_sleigh s) =
     trace s @ (if status s = Running \<and> sem_val s santa_busy_mutex \<noteq> 0
                then [Stdout Santa_preparing_the_sleigh] else [])"
  "sem_val (prepare_sleigh s) reindeer_counting_sem =
     sem_val s reindeer_counting_sem
     + (if status s = Running \<and> sem_val s santa_busy_mutex \<noteq> 0 then nat NUM_REINDEER else 0)"
  by (simp_all add: prepare_sleigh_def prims)

text \<open>
  C3: when Santa is awake and both thresholds hold (\<^verbatim>\<open>num_reindeer_waiting\<close> is at
  least \<^verbatim>\<open>NUM_REINDEER\<close> and at least 3 elves wait), he goes to
  \<^verbatim>\<open>prepare_sleigh\<close> and does not run \<^verbatim>\<open>help_elves\<close>: the set of waiting elves,
  \<^verbatim>\<open>num_elves_being_helped\<close> and the elves' semaphores stay as they are, the only
  thing printed is that of \<^verbatim>\<open>prepare_sleigh\<close>, and the reindeer get their credits
  (when \<^verbatim>\<open>santa_busy_mutex\<close> is free, so that \<^verbatim>\<open>prepare_sleigh\<close> does not wait).
  This holds of both versions; \<^verbatim>\<open>i0\<close> is the value of the local \<^verbatim>\<open>i\<close> of
  \<^verbatim>\<open>help_elves\<close> in \<^verbatim>\<open>trunk/main.c\<close>.
\<close>

theorem santa_prefers_the_sleigh:
  assumes "status s = Running" and "NUM_REINDEER \<le> num_reindeer_waiting s"
    and "3 \<le> set_cardinality s"
  shows "santa_awake s =
           block [sem_wait Santa santa_busy_mutex, sem_wait Santa santa_sleep_mutex]
             (prepare_sleigh (s\<lparr>num_reindeer_waiting := NUM_REINDEER\<rparr>))
    \<and> trunk_santa_awake i0 s =
           sem_wait Santa christmas_mutex
             (prepare_sleigh (s\<lparr>num_reindeer_waiting := NUM_REINDEER\<rparr>))
    \<and> elves_waiting (santa_awake s) = elves_waiting s
    \<and> elves_waiting (trunk_santa_awake i0 s) = elves_waiting s
    \<and> num_elves_being_helped (santa_awake s) = num_elves_being_helped s
    \<and> num_elves_being_helped (trunk_santa_awake i0 s) = num_elves_being_helped s
    \<and> (\<forall>i. sem_val (santa_awake s) (elf_line_set i) = sem_val s (elf_line_set i))
    \<and> (\<forall>i. sem_val (trunk_santa_awake i0 s) (elf_line_set i) = sem_val s (elf_line_set i))
    \<and> trace (santa_awake s) = trace s @
         (if sem_val s santa_busy_mutex \<noteq> 0 then [Stdout Santa_preparing_the_sleigh] else [])
    \<and> trace (trunk_santa_awake i0 s) = trace s @
         (if sem_val s santa_busy_mutex \<noteq> 0 then [Stdout Santa_preparing_the_sleigh] else [])
    \<and> sem_val (santa_awake s) reindeer_counting_sem = sem_val s reindeer_counting_sem +
         (if sem_val s santa_busy_mutex \<noteq> 0 then nat NUM_REINDEER else 0)
    \<and> sem_val (trunk_santa_awake i0 s) reindeer_counting_sem = sem_val s reindeer_counting_sem +
         (if sem_val s santa_busy_mutex \<noteq> 0 then nat NUM_REINDEER else 0)"
proof -
  define s1 where "s1 = s\<lparr>num_reindeer_waiting := NUM_REINDEER\<rparr>"
  have a: "santa_awake s =
      sem_wait Santa santa_sleep_mutex (sem_wait Santa santa_busy_mutex (prepare_sleigh s1))"
    using assms(1,2)
    by (simp add: santa_awake_def IF_def running_def assign_num_reindeer_waiting_def s1_def)
  have b: "trunk_santa_awake i0 s = sem_wait Santa christmas_mutex (prepare_sleigh s1)"
    using assms(1,2)
    by (simp add: trunk_santa_awake_def IF_def running_def assign_num_reindeer_waiting_def s1_def)
  have s1: "status s1 = Running" "elves_waiting s1 = elves_waiting s"
    "num_elves_being_helped s1 = num_elves_being_helped s" "sem_val s1 = sem_val s"
    "trace s1 = trace s"
    using assms(1) by (simp_all add: s1_def)
  show ?thesis
    unfolding a b s1_def [symmetric]
    by (simp add: sem_wait_frame prepare_sleigh_frame s1)
qed

theorem santa_prefers_the_sleigh_witness:
  "elves_waiting (santa_awake (init\<lparr>num_reindeer_waiting := 10, elves_waiting := [0, 1, 2]\<rparr>))
     = [0, 1, 2]
   \<and> trace (santa_awake (init\<lparr>num_reindeer_waiting := 10, elves_waiting := [0, 1, 2]\<rparr>))
     = trace init @ [Stdout Santa_preparing_the_sleigh]
   \<and> sem_val (santa_awake (init\<lparr>num_reindeer_waiting := 10, elves_waiting := [0, 1, 2]\<rparr>))
       reindeer_counting_sem = 10
   \<and> sem_val (santa_awake (init\<lparr>num_reindeer_waiting := 10, elves_waiting := [0, 1, 2]\<rparr>))
       (elf_line_set 0) = 0"
proof -
  define s where "s = init\<lparr>num_reindeer_waiting := 10, elves_waiting := [0, 1, 2]\<rparr>"
  have h: "status s = Running" "NUM_REINDEER \<le> num_reindeer_waiting s" "3 \<le> set_cardinality s"
    by (simp_all add: s_def init_fields set_cardinality_def NUM_REINDEER_def)
  have v: "elves_waiting s = [0, 1, 2]" "trace s = trace init"
    "sem_val s santa_busy_mutex \<noteq> 0" "sem_val s reindeer_counting_sem = 0"
    "sem_val s (elf_line_set 0) = 0"
    by (simp_all add: s_def init_fields)
  note T = conjunct2 [OF conjunct2 [OF santa_prefers_the_sleigh [OF h, of 0]]]
  have "elves_waiting (santa_awake s) = [0, 1, 2]
   \<and> trace (santa_awake s) = trace init @ [Stdout Santa_preparing_the_sleigh]
   \<and> sem_val (santa_awake s) reindeer_counting_sem = 10
   \<and> sem_val (santa_awake s) (elf_line_set 0) = 0"
    using T v by (simp add: NUM_REINDEER_def)
  then show ?thesis by (simp only: s_def)
qed

subsection \<open>The group of elves\<close>

lemma help_loop_done: "NUM_ELVES_PER_GROUP \<le> i \<Longrightarrow> help_loop i s = s"
  by (subst help_loop.simps) simp

lemma help_loop_stopped: "status s \<noteq> Running \<Longrightarrow> help_loop i s = s"
  by (subst help_loop.simps) simp

lemma help_loop_step:
  "status s = Running \<Longrightarrow> i < NUM_ELVES_PER_GROUP \<Longrightarrow> elves_waiting s = x # xs \<Longrightarrow>
   help_loop i s = help_loop (i + 1)
     (block [fprintf (Stdout (Santa_helping_elf x)), sem_signal_index Santa x 1]
        (s\<lparr>elves_waiting := xs\<rparr>))"
  by (subst help_loop.simps) (simp add: set_take_def)

lemma help_loop_effect:
  "status s = Running \<Longrightarrow> i \<le> NUM_ELVES_PER_GROUP \<Longrightarrow>
   nat (NUM_ELVES_PER_GROUP - i) \<le> length (elves_waiting s) \<Longrightarrow>
     status (help_loop i s) = Running
   \<and> elves_waiting (help_loop i s) = drop (nat (NUM_ELVES_PER_GROUP - i)) (elves_waiting s)
   \<and> trace (help_loop i s) = trace s @
        map (\<lambda>e. Stdout (Santa_helping_elf e))
          (take (nat (NUM_ELVES_PER_GROUP - i)) (elves_waiting s))
   \<and> (\<forall>j. sem_val (help_loop i s) (elf_line_set j) = sem_val s (elf_line_set j) +
        count_list (take (nat (NUM_ELVES_PER_GROUP - i)) (elves_waiting s)) j)
   \<and> (\<forall>m. (\<forall>j. m \<noteq> elf_line_set j) \<longrightarrow> sem_val (help_loop i s) m = sem_val s m)
   \<and> num_elves_being_helped (help_loop i s) = num_elves_being_helped s
   \<and> num_reindeer_waiting (help_loop i s) = num_reindeer_waiting s"
proof (induction i s rule: help_loop.induct)
  case (1 i s)
  show ?case
  proof (cases "i < NUM_ELVES_PER_GROUP")
    case False
    with 1(3) have "i = NUM_ELVES_PER_GROUP" by simp
    with 1(2) show ?thesis by (simp add: help_loop_done)
  next
    case True
    define n where "n = nat (NUM_ELVES_PER_GROUP - (i + 1))"
    have n: "nat (NUM_ELVES_PER_GROUP - i) = Suc n"
      using True by (simp add: n_def)
    with 1(4) obtain x xs where xs: "elves_waiting s = x # xs"
      by (cases "elves_waiting s") auto
    define s1 where "s1 = block [fprintf (Stdout (Santa_helping_elf x)),
        sem_signal_index Santa x 1] (s\<lparr>elves_waiting := xs\<rparr>)"
    have step: "help_loop i s = help_loop (i + 1) s1"
      unfolding s1_def using 1(2) True xs by (rule help_loop_step)
    have s1: "status s1 = Running" "elves_waiting s1 = xs"
      "trace s1 = trace s @ [Stdout (Santa_helping_elf x)]"
      "sem_val s1 = (sem_val s)(elf_line_set x := sem_val s (elf_line_set x) + 1)"
      "num_elves_being_helped s1 = num_elves_being_helped s"
      "num_reindeer_waiting s1 = num_reindeer_waiting s"
      using 1(2) by (simp_all add: s1_def prims)
    have take: "set_take s = Some (x, s\<lparr>elves_waiting := xs\<rparr>)"
      using xs by (simp add: set_take_def)
    have pre: "status s = Running \<and> i < NUM_ELVES_PER_GROUP" using True 1(2) by simp
    have len: "nat (NUM_ELVES_PER_GROUP - (i + 1)) \<le> length (elves_waiting s1)"
      using 1(4) n xs s1 by (simp add: n_def)
    have le: "i + 1 \<le> NUM_ELVES_PER_GROUP" using True by simp
    note IH = 1(1) [OF pre take refl, folded s1_def, OF s1(1) le len, folded n_def]
    show ?thesis
      unfolding step n using IH s1 xs by auto
  qed
qed

text \<open>
  C1: in a service window \<^verbatim>\<open>help_elves\<close> takes exactly
  \<^verbatim>\<open>NUM_ELVES_PER_GROUP\<close> = 3 elves out of \<^verbatim>\<open>elves_waiting\<close>, never 2 and
  never 4: whenever at least three elves wait (and the three locks are free, so that
  Santa does not have to wait), it sets \<^verbatim>\<open>num_elves_being_helped\<close> to 3, the set
  loses exactly three members, and the semaphore of each elf taken is signalled once
  and no other. This is \<^verbatim>\<open>help_elves\<close> of the version with
  \<^verbatim>\<open>santa_sleep_mutex\<close>, whose loop starts at \<^verbatim>\<open>i = 0\<close>.
\<close>

theorem help_elves_serves_group:
  assumes "status s = Running" and "sem_val s santa_busy_mutex \<noteq> 0"
    and "sem_val s elf_counter_lock \<noteq> 0" and "sem_val s elf_mutex \<noteq> 0"
    and "NUM_ELVES_PER_GROUP \<le> set_cardinality s"
  shows "status (help_elves s) = Running
    \<and> num_elves_being_helped (help_elves s) = NUM_ELVES_PER_GROUP
    \<and> elves_waiting (help_elves s) = drop 3 (elves_waiting s)
    \<and> set_cardinality (help_elves s) = set_cardinality s - NUM_ELVES_PER_GROUP
    \<and> (\<forall>j. sem_val (help_elves s) (elf_line_set j) =
          sem_val s (elf_line_set j) + count_list (take 3 (elves_waiting s)) j)"
proof -
  define s1 where "s1 = block
     [fprintf (Stdout Santa_noticed_elves_waiting),
      sem_wait Santa santa_busy_mutex,
      CRITICAL Santa elf_counter_lock [assign_num_elves_being_helped NUM_ELVES_PER_GROUP],
      sem_wait Santa elf_mutex,
      (\<lambda>s. fprintf (Stdout (Santa_elves_outside_my_door (set_cardinality s))) s)] s"
  have s1: "status s1 = Running" "elves_waiting s1 = elves_waiting s"
    "num_elves_being_helped s1 = NUM_ELVES_PER_GROUP"
    "\<forall>j. sem_val s1 (elf_line_set j) = sem_val s (elf_line_set j)"
    using assms(1-4) by (simp_all add: s1_def prims)
  have h: "help_elves s = sem_signal Santa elf_mutex (help_loop 0 s1)"
    by (simp add: help_elves_def s1_def CRITICAL_def)
  have len: "nat (NUM_ELVES_PER_GROUP - 0) \<le> length (elves_waiting s1)"
    using assms(5) by (simp add: s1 set_cardinality_def)
  note L = help_loop_effect [OF s1(1) _ len, simplified]
  have three: "nat NUM_ELVES_PER_GROUP = 3" by (simp add: NUM_ELVES_PER_GROUP_def)
  show ?thesis
    unfolding h using L s1 assms(5)
    by (simp add: sem_signal_def sem_signal_ntimes_def running_def three set_cardinality_def
        NUM_ELVES_PER_GROUP_def)
qed

theorem help_elves_serves_group_witness:
  "status santa_woken_by_three_elves = Running
   \<and> elves_waiting santa_woken_by_three_elves = [0, 1, 2]
   \<and> status (help_elves santa_woken_by_three_elves) = Running
   \<and> num_elves_being_helped (help_elves santa_woken_by_three_elves) = 3
   \<and> elves_waiting (help_elves santa_woken_by_three_elves) = []
   \<and> sem_val (help_elves santa_woken_by_three_elves) (elf_line_set 0) = 1
   \<and> sem_val (help_elves santa_woken_by_three_elves) (elf_line_set 1) = 1
   \<and> sem_val (help_elves santa_woken_by_three_elves) (elf_line_set 2) = 1
   \<and> sem_val (help_elves santa_woken_by_three_elves) (elf_line_set 3) = 0"
proof -
  define s where "s = santa_woken_by_three_elves"
  have v: "status s = Running" "sem_val s santa_busy_mutex \<noteq> 0"
    "sem_val s elf_counter_lock \<noteq> 0" "sem_val s elf_mutex \<noteq> 0"
    "elves_waiting s = [0, 1, 2]"
    "sem_val s (elf_line_set 0) = 0" "sem_val s (elf_line_set 1) = 0"
    "sem_val s (elf_line_set 2) = 0" "sem_val s (elf_line_set 3) = 0"
    by (simp_all add: s_def santa_woken_by_three_elves_def switch_thread_def elf_iteration_def
        elf_get_in_line_def get_help_def set_cardinality_def prims macros init_value)
  have card: "NUM_ELVES_PER_GROUP \<le> set_cardinality s"
    by (simp add: v set_cardinality_def NUM_ELVES_PER_GROUP_def)
  from help_elves_serves_group [OF v(1-4) card] v
  have "status s = Running
   \<and> elves_waiting s = [0, 1, 2]
   \<and> status (help_elves s) = Running
   \<and> num_elves_being_helped (help_elves s) = 3
   \<and> elves_waiting (help_elves s) = []
   \<and> sem_val (help_elves s) (elf_line_set 0) = 1
   \<and> sem_val (help_elves s) (elf_line_set 1) = 1
   \<and> sem_val (help_elves s) (elf_line_set 2) = 1
   \<and> sem_val (help_elves s) (elf_line_set 3) = 0"
    by (simp add: NUM_ELVES_PER_GROUP_def)
  then show ?thesis by (simp only: s_def)
qed

text \<open>
  \<^verbatim>\<open>help_elves\<close> of \<^verbatim>\<open>trunk/main.c\<close>, as a function of the state it is
  called in, takes \<^verbatim>\<open>3 - i0\<close> elves, where \<^verbatim>\<open>i0\<close> is what its local
  \<^verbatim>\<open>i\<close> holds. In a run of that version the function is not reached: the first
  elf in line keeps \<^verbatim>\<open>elf_mutex\<close> while it waits, so that the set never has more
  than one member.
\<close>

lemma trunk_help_elves_serves_fewer:
  assumes "status s = Running" and "sem_val s santa_busy_mutex \<noteq> 0"
    and "sem_val s elf_counter_lock \<noteq> 0" and "sem_val s elf_mutex \<noteq> 0"
    and "NUM_ELVES_PER_GROUP \<le> set_cardinality s"
    and "0 \<le> i0" and "i0 \<le> NUM_ELVES_PER_GROUP"
  shows "status (trunk_help_elves i0 s) = Running
    \<and> num_elves_being_helped (trunk_help_elves i0 s) = NUM_ELVES_PER_GROUP
    \<and> elves_waiting (trunk_help_elves i0 s) =
        drop (nat (NUM_ELVES_PER_GROUP - i0)) (elves_waiting s)
    \<and> set_cardinality (trunk_help_elves i0 s) = set_cardinality s - (NUM_ELVES_PER_GROUP - i0)"
proof -
  define s1 where "s1 = block
     [fprintf (Stdout Santa_noticed_elves_waiting),
      sem_wait Santa santa_busy_mutex,
      CRITICAL Santa elf_counter_lock [assign_num_elves_being_helped NUM_ELVES_PER_GROUP],
      sem_wait Santa elf_mutex] s"
  have s1: "status s1 = Running" "elves_waiting s1 = elves_waiting s"
    "num_elves_being_helped s1 = NUM_ELVES_PER_GROUP"
    using assms(1-4) by (simp_all add: s1_def prims)
  have h: "trunk_help_elves i0 s = sem_signal Santa elf_mutex (help_loop i0 s1)"
    by (simp add: trunk_help_elves_def s1_def CRITICAL_def)
  have len: "nat (NUM_ELVES_PER_GROUP - i0) \<le> length (elves_waiting s1)"
    using assms(5,6) by (simp add: s1 set_cardinality_def)
  note L = help_loop_effect [OF s1(1) assms(7) len]
  show ?thesis
    unfolding h using L s1 assms(5,6,7)
    by (simp add: sem_signal_def sem_signal_ntimes_def running_def set_cardinality_def)
qed

subsection \<open>Who wakes Santa\<close>

text \<open>
  C4: for one crossing of a threshold at most one thread is to signal
  \<^verbatim>\<open>santa_sleep_mutex\<close>, the test being made under the lock that guarded the
  increment. \<^verbatim>\<open>reindeer\<close> makes its test
  \<^verbatim>\<open>NUM_REINDEER <= num_reindeer_waiting\<close> after it has released
  \<^verbatim>\<open>reindeer_counter_lock\<close>. In this run reindeer 0 to 7 come back; reindeer 8
  increments the counter to 9 and is overtaken before its test; reindeer 9 increments
  the counter to 10, finds 10 and signals; then reindeer 8 also finds 10 and signals.
  The semaphore has been signalled twice for the one crossing, and two reindeer have
  printed that they are the last one.
\<close>

theorem two_reindeer_wake_santa:
  "map_option
     (\<lambda>c. (sem_val (shared c) santa_sleep_mutex, num_reindeer_waiting (shared c),
           last_ones (shared c)))
     (run_reindeer [0, 0, 0, 1, 1, 1, 2, 2, 2, 3, 3, 3, 4, 4, 4, 5, 5, 5, 6, 6, 6, 7, 7, 7,
                    8, 8, 9, 9, 9, 8]
        \<lparr>shared = init, reindeer_pc = (\<lambda>r. 0)\<rparr>)
   = Some (2, 10, [9, 8])"
  by (simp add: reindeer_step_def Let_def reindeer_code_def prims macros init_value last_ones_def)

subsection \<open>What main checks\<close>

lemma block_append: "block (xs @ ys) s = block ys (block xs s)"
  by (induction xs arbitrary: s) simp_all

lemma launch_trace:
  "status s = Running \<Longrightarrow>
   status (block (map (\<lambda>i. fprintf (f i)) xs) s) = Running
   \<and> trace (block (map (\<lambda>i. fprintf (f i)) xs) s) = trace s @ map f xs"
  by (induction xs arbitrary: s) (simp_all add: fprintf_def running_def)

lemma launch_frame:
  "resources_freed (block (map (\<lambda>i. fprintf (f i)) xs) s) = resources_freed s"
  by (induction xs arbitrary: s) (simp_all add: fprintf_def running_def)

text \<open>
  What \<^verbatim>\<open>main\<close> does at the start, whatever the three macros are: when the
  at-exit handler cannot be registered it reports that on \<^verbatim>\<open>stderr\<close>, launches
  no thread, frees the resources and ends; otherwise it reports nothing and launches
  Santa, every elf and every reindeer. The sizes the program is compiled with have
  \<^verbatim>\<open>NUM_ELVES_PER_GROUP\<close> at most \<^verbatim>\<open>NUM_ELVES\<close>.
\<close>

lemma main_checks_atexit_only:
  "stderr_output (main_with E N K atexit_ok boot) =
      (if atexit_ok then [] else [Unable_to_register_atexit])
   \<and> threads_launched (main_with E N K atexit_ok boot) =
      (if atexit_ok then Santa # map Elf [0..E - 1] @ map Reindeer [0..N - 1] else [])
   \<and> status (main_with E N K atexit_ok boot) = (if atexit_ok then Running else Exited 0)
   \<and> resources_freed (main_with E N K atexit_ok boot) = (\<not> atexit_ok)
   \<and> NUM_ELVES_PER_GROUP \<le> NUM_ELVES"
proof (cases atexit_ok)
  case False
  then show ?thesis
    by (simp add: main_with_def boot_def prims free_resources_def free_resources_printing_def
        stderr_output_def threads_launched_def macros)
next
  case True
  define s1 where "s1 = block
         [fprintf (Sem_fill_set The_sem_set 7),
          fprintf (Sem_fill_set The_elf_line_set E),
          fprintf (Set_alloc The_elves_waiting E),
          register_atexit,
          sem_init elf_mutex 1,
          sem_init reindeer_counter_lock 1,
          sem_init elf_counter_lock 1,
          sem_init santa_busy_mutex 1,
          sem_init santa_sleep_mutex 0,
          sem_init reindeer_counting_sem 0,
          sem_init elf_counting_sem (nat K),
          sem_init_all 0,
          fprintf (Pthread_create Santa)] boot"
  have s1: "status s1 = Running" "resources_freed s1 = False"
    "trace s1 = [Sem_fill_set The_sem_set 7, Sem_fill_set The_elf_line_set E,
        Set_alloc The_elves_waiting E, Pthread_create Santa]"
    by (simp_all add: s1_def boot_def prims)
  have m: "main_with E N K atexit_ok boot =
      block (map (\<lambda>i. fprintf (Pthread_create (Reindeer i))) [0..N - 1])
        (block (map (\<lambda>i. fprintf (Pthread_create (Elf i))) [0..E - 1]) s1)"
    using True by (simp add: main_with_def launch_threads_def s1_def block_append)
  note E = launch_trace [OF s1(1), of "\<lambda>i. Pthread_create (Elf i)" "[0..E - 1]"]
  note R = launch_trace [OF conjunct1 [OF E], of "\<lambda>i. Pthread_create (Reindeer i)" "[0..N - 1]"]
  show ?thesis
    unfolding m using True E R s1
    by (simp add: stderr_output_def threads_launched_def launch_frame macros comp_def)
qed

lemma main_at_start:
  "stderr_output (main False boot) = [Unable_to_register_atexit]
   \<and> threads_launched (main False boot) = []
   \<and> status (main False boot) = Exited 0
   \<and> stderr_output (main True boot) = []
   \<and> status (main True boot) = Running"
  using main_checks_atexit_only [of NUM_ELVES NUM_REINDEER NUM_ELVES_PER_GROUP False]
    main_checks_atexit_only [of NUM_ELVES NUM_REINDEER NUM_ELVES_PER_GROUP True]
  by (simp add: main_def)

subsection \<open>Locks held while a thread waits\<close>

lemma guarded_running [simp]: "guarded (running f)"
  by (simp add: guarded_def running_def)

lemma guarded_prims [simp]:
  "guarded (sem_wait a m)" "guarded (sem_signal_ntimes a m n)" "guarded (sem_signal a m)"
  "guarded (sem_wait_index a i)" "guarded (sem_signal_index a i n)" "guarded (fprintf e)"
  "guarded (set_insert x)" "guarded (assign_num_elves_being_helped v)"
  "guarded (assign_num_reindeer_waiting v)" "guarded (IF c yes no)" "guarded (random_wait msg)"
  "guarded (get_hitched i)" "guarded (exit_process code)"
  by (simp_all add: prims del: guarded_running) simp_all

lemma guarded_block [simp]: "(\<forall>c \<in> set cs. guarded c) \<Longrightarrow> guarded (block cs)"
  by (induction cs) (auto simp: guarded_def)

lemma guarded_CRITICAL [simp]: "(\<forall>c \<in> set body. guarded c) \<Longrightarrow> guarded (CRITICAL a m body)"
  by (simp add: CRITICAL_def)

lemma guarded_reading [simp]:
  "guarded (\<lambda>s. assign_num_elves_being_helped (f s) s)"
  "guarded (\<lambda>s. assign_num_reindeer_waiting (f s) s)"
  "guarded (\<lambda>s. fprintf (g s) s)"
  by (simp_all add: guarded_def prims)

lemma guarded_help_loop [simp]: "guarded (help_loop i)"
  unfolding guarded_def by (subst help_loop.simps) simp

lemma track_nil: "track a B G (block []) G"
  by (auto simp: track_def)

lemma track_weaken: "track a B G c G1 \<Longrightarrow> G1 \<subseteq> G' \<Longrightarrow> track a B G c G'"
  by (simp add: track_def) blast

lemma track_cons:
  assumes "track a B G c G1" and "track a B G1 (block cs) G'" and "guarded (block cs)"
  shows "track a B G (block (c # cs)) G'"
  unfolding track_def
proof (intro allI impI)
  fix s :: state
  assume s: "status s = Running \<and> held s a \<inter> guard_locks \<subseteq> G"
  show "(status (block (c # cs) s) = Running \<longrightarrow> held (block (c # cs) s) a \<inter> guard_locks \<subseteq> G') \<and>
        (\<forall>m. status (block (c # cs) s) = Blocked m \<longrightarrow>
           (held (block (c # cs) s) a - {m}) \<inter> guard_locks \<subseteq> B)"
  proof (cases "status (c s) = Running")
    case True
    with assms(1) s have "held (c s) a \<inter> guard_locks \<subseteq> G1" by (simp add: track_def)
    with assms(2) True show ?thesis by (simp add: track_def)
  next
    case False
    with assms(3) have "block cs (c s) = c s" by (simp add: guarded_def)
    with assms(1) s False show ?thesis by (simp add: track_def)
  qed
qed

lemma track_wait:
  "G - {m} \<subseteq> B \<Longrightarrow> track a B G (sem_wait a m) (insert m G \<inter> guard_locks)"
  by (auto simp: track_def sem_wait_def running_def)

lemma track_wait_index:
  "G - {elf_line_set i} \<subseteq> B \<Longrightarrow>
   track a B G (sem_wait_index a i) (insert (elf_line_set i) G \<inter> guard_locks)"
  by (simp add: sem_wait_index_def track_wait)

lemma track_signal_ntimes: "track a B G (sem_signal_ntimes a m n) (G - {m})"
  by (auto simp: track_def sem_signal_ntimes_def running_def)

lemma track_signal: "track a B G (sem_signal a m) (G - {m})"
  by (simp add: sem_signal_def track_signal_ntimes)

lemma track_signal_index: "track a B G (sem_signal_index a i n) (G - {elf_line_set i})"
  by (simp add: sem_signal_index_def track_signal_ntimes)

lemma track_plain:
  "track a B G (fprintf e) G"
  "track a B G (set_insert x) G"
  "track a B G (assign_num_elves_being_helped v) G"
  "track a B G (assign_num_reindeer_waiting v) G"
  "track a B G (random_wait msg) G"
  "track a B G (get_hitched i) G"
  by (auto simp: track_def prims)

lemma track_reading:
  "track a B G (\<lambda>s. assign_num_elves_being_helped (f s) s) G"
  "track a B G (\<lambda>s. assign_num_reindeer_waiting (f s) s) G"
  "track a B G (\<lambda>s. fprintf (g s) s) G"
  by (auto simp: track_def prims)

lemma track_IF:
  "track a B G (block yes) G1 \<Longrightarrow> track a B G (block no) G2 \<Longrightarrow>
   track a B G (IF c yes no) (G1 \<union> G2)"
  by (simp add: track_def IF_def running_def) blast

lemma track_exit: "track a B G (exit_process code) G"
  by (simp add: track_def exit_process_def running_def)

lemma track_CRITICAL:
  assumes "G - {m} \<subseteq> B" and "track a B (insert m G \<inter> guard_locks) (block body) G1"
    and "\<forall>c \<in> set body. guarded c"
  shows "track a B G (CRITICAL a m body) (G1 - {m})"
  unfolding CRITICAL_def
  by (rule track_cons [OF track_wait [OF assms(1)]]
        track_cons [OF assms(2)] track_cons [OF track_signal] track_nil
      | simp add: assms(3))+

lemma help_loop_holds:
  "status s = Running \<Longrightarrow>
   held (help_loop i s) Santa \<inter> guard_locks = held s Santa \<inter> guard_locks
   \<and> (\<forall>m. status (help_loop i s) \<noteq> Blocked m)"
proof (induction i s rule: help_loop.induct)
  case (1 i s)
  show ?case
  proof (cases "i < NUM_ELVES_PER_GROUP")
    case False
    then have "help_loop i s = s" by (subst help_loop.simps) simp
    with 1(2) show ?thesis by simp
  next
    case True
    show ?thesis
    proof (cases "elves_waiting s")
      case Nil
      with True 1(2) have "help_loop i s = s\<lparr>status := Undescribed\<rparr>"
        by (subst help_loop.simps) (simp add: set_take_def)
      then show ?thesis by simp
    next
      case (Cons x xs)
      define s1 where "s1 = block [fprintf (Stdout (Santa_helping_elf x)),
          sem_signal_index Santa x 1] (s\<lparr>elves_waiting := xs\<rparr>)"
      have step: "help_loop i s = help_loop (i + 1) s1"
        using True 1(2) Cons by (subst help_loop.simps) (simp add: set_take_def s1_def)
      have s1: "status s1 = Running"
        "held s1 Santa \<inter> guard_locks = held s Santa \<inter> guard_locks"
        using 1(2) by (auto simp: s1_def prims guard_locks_def)
      have take: "set_take s = Some (x, s\<lparr>elves_waiting := xs\<rparr>)"
        using Cons by (simp add: set_take_def)
      have pre: "status s = Running \<and> i < NUM_ELVES_PER_GROUP" using True 1(2) by simp
      from 1(1) [OF pre take refl, folded s1_def, OF s1(1)] s1(2) step
      show ?thesis by simp
    qed
  qed
qed

lemma track_help_loop: "track Santa B G (help_loop i) G"
  using help_loop_holds by (simp add: track_def)

lemmas track_rules = track_cons track_nil track_wait track_wait_index track_signal_ntimes
  track_signal track_signal_index track_plain track_reading track_IF track_exit track_CRITICAL
  track_help_loop

lemma guarded_get_help [simp]: "guarded (get_help ident)"
  by (simp add: get_help_def)

lemma track_get_help: "track (Elf ident) {} {} (get_help ident) {}"
  unfolding get_help_def
  by (rule track_weaken) (rule track_rules | simp add: guard_locks_def insert_Diff_if)+

lemma track_elf_iteration: "track (Elf ident) {} {} (elf_iteration ident) {}"
  unfolding elf_iteration_def elf_get_in_line_def
  by (rule track_weaken) (rule track_rules track_get_help | simp add: guard_locks_def insert_Diff_if)+

lemma track_reindeer: "track (Reindeer ident) {} {} (reindeer ident) {}"
  unfolding reindeer_def reindeer_code_def
  by (rule track_weaken) (rule track_rules | simp add: guard_locks_def insert_Diff_if)+

lemma guarded_santa [simp]: "guarded help_elves" "guarded prepare_sleigh"
  by (simp_all add: help_elves_def prepare_sleigh_def)

lemma track_santa_iteration:
  "track Santa {santa_busy_mutex} {santa_busy_mutex} santa_iteration {santa_busy_mutex}"
  unfolding santa_iteration_def santa_awake_def help_elves_def prepare_sleigh_def
  by (rule track_weaken) (rule track_rules | simp add: guard_locks_def insert_Diff_if)+

text \<open>
  \<^verbatim>\<open>elf_in_critical_section\<close> is the first part of a turn of \<^verbatim>\<open>elf\<close>: the turn
  is that part followed by the release of \<^verbatim>\<open>elf_mutex\<close>, the wait in line and
  \<^verbatim>\<open>get_help\<close>.
\<close>

lemma elf_iteration_resumes:
  "elf_iteration ident s =
     block [sem_signal (Elf ident) elf_mutex, sem_wait_index (Elf ident) ident, get_help ident]
       (elf_in_critical_section ident s)"
  by (simp add: elf_iteration_def elf_in_critical_section_def elf_get_in_line_def CRITICAL_def)

lemma elf_waits_in_line: "status (elf_iteration 0 init) = Blocked (elf_line_set 0)"
  by (simp add: elf_iteration_def elf_get_in_line_def get_help_def set_cardinality_def
      prims macros init_fields)

text \<open>
  C2 as it stands (no thread ever waits on a gate while it holds another guard lock)
  does not hold of Santa. Elves 0 and 1 get in line and wait on their semaphores. Elf
  2 gets in line as the third, signals \<^verbatim>\<open>santa_sleep_mutex\<close>, and is overtaken
  before it leaves its critical section. Santa wakes up, finds three elves, takes
  \<^verbatim>\<open>santa_busy_mutex\<close> in \<^verbatim>\<open>help_elves\<close>, and then has to wait for
  \<^verbatim>\<open>elf_mutex\<close>, which elf 2 holds, while he holds \<^verbatim>\<open>santa_busy_mutex\<close>.
\<close>

theorem santa_waits_holding_santa_busy_mutex:
  "blocks_holding_guard Santa
     (santa_iteration
       (elf_in_critical_section 2
         (switch_thread (elf_iteration 1
           (switch_thread (elf_iteration 0 init))))))
   \<and> status
       (santa_iteration
         (elf_in_critical_section 2
           (switch_thread (elf_iteration 1
             (switch_thread (elf_iteration 0 init)))))) = Blocked elf_mutex
   \<and> santa_busy_mutex \<in> held
       (santa_iteration
         (elf_in_critical_section 2
           (switch_thread (elf_iteration 1
             (switch_thread (elf_iteration 0 init)))))) Santa"
  by (simp add: blocks_holding_guard_def santa_iteration_def santa_awake_def help_elves_def
      elf_in_critical_section_def switch_thread_def elf_iteration_def elf_get_in_line_def
      get_help_def set_cardinality_def prims macros init_value guard_locks_def help_loop_stopped)

text \<open>
  C2, amended, for the version with \<^verbatim>\<open>santa_sleep_mutex\<close>: an elf and a reindeer
  never wait on a semaphore while holding a guard lock, and an elf has released
  \<^verbatim>\<open>elf_mutex\<close> when it waits on its own semaphore; Santa is the exception, and
  the one guard lock he may hold while he waits is \<^verbatim>\<open>santa_busy_mutex\<close>. Each
  thread starts its turn running and holding no guard lock (Santa at most
  \<^verbatim>\<open>santa_busy_mutex\<close>), and that is again so when the turn is over. The credit
  of \<^verbatim>\<open>elf_counting_sem\<close> that an elf keeps while it is in line is not a guard
  lock.
\<close>

theorem workers_hold_no_guard_lock_when_blocked:
  assumes "status s = Running"
    and "held s (Elf e) \<inter> guard_locks = {}"
    and "held s (Reindeer r) \<inter> guard_locks = {}"
    and "held s Santa \<inter> guard_locks \<subseteq> {santa_busy_mutex}"
  shows "\<not> blocks_holding_guard (Elf e) (elf_iteration e s)
    \<and> \<not> (status (elf_iteration e s) = Blocked (elf_line_set e)
          \<and> elf_mutex \<in> held (elf_iteration e s) (Elf e))
    \<and> \<not> blocks_holding_guard (Reindeer r) (reindeer r s)
    \<and> (\<forall>m. status (santa_iteration s) = Blocked m \<longrightarrow>
          (held (santa_iteration s) Santa - {m}) \<inter> guard_locks \<subseteq> {santa_busy_mutex})
    \<and> (status (elf_iteration e s) = Running \<longrightarrow>
          held (elf_iteration e s) (Elf e) \<inter> guard_locks = {})
    \<and> (status (santa_iteration s) = Running \<longrightarrow>
          held (santa_iteration s) Santa \<inter> guard_locks \<subseteq> {santa_busy_mutex})"
proof -
  have E':  "status (elf_iteration e s) = Running \<longrightarrow>
          held (elf_iteration e s) (Elf e) \<inter> guard_locks = {}"
    using track_elf_iteration [of e] assms(1,2) unfolding track_def by blast
  have S': "status (santa_iteration s) = Running \<longrightarrow>
          held (santa_iteration s) Santa \<inter> guard_locks \<subseteq> {santa_busy_mutex}"
    using track_santa_iteration assms(1,4) unfolding track_def by blast
  have E: "\<forall>m. status (elf_iteration e s) = Blocked m \<longrightarrow>
      (held (elf_iteration e s) (Elf e) - {m}) \<inter> guard_locks \<subseteq> {}"
    using track_elf_iteration [of e] assms(1,2) unfolding track_def by blast
  have R: "\<forall>m. status (reindeer r s) = Blocked m \<longrightarrow>
      (held (reindeer r s) (Reindeer r) - {m}) \<inter> guard_locks \<subseteq> {}"
    using track_reindeer [of r] assms(1,3) unfolding track_def by blast
  have S: "\<forall>m. status (santa_iteration s) = Blocked m \<longrightarrow>
      (held (santa_iteration s) Santa - {m}) \<inter> guard_locks \<subseteq> {santa_busy_mutex}"
    using track_santa_iteration assms(1,4) unfolding track_def by blast
  have 1: "\<not> blocks_holding_guard (Elf e) (elf_iteration e s)"
    using E by (auto simp: blocks_holding_guard_def split: status.splits)
  have 2: "\<not> (status (elf_iteration e s) = Blocked (elf_line_set e)
          \<and> elf_mutex \<in> held (elf_iteration e s) (Elf e))"
    using E by (auto simp: guard_locks_def)
  have 3: "\<not> blocks_holding_guard (Reindeer r) (reindeer r s)"
    using R by (auto simp: blocks_holding_guard_def split: status.splits)
  from 1 2 3 S E' S' show ?thesis by blast
qed

theorem workers_hold_no_guard_lock_when_blocked_witness:
  "status init = Running
   \<and> held init (Elf 0) \<inter> guard_locks = {}
   \<and> held init (Reindeer 0) \<inter> guard_locks = {}
   \<and> held init Santa \<inter> guard_locks \<subseteq> {santa_busy_mutex}
   \<and> status (elf_iteration 0 init) = Blocked (elf_line_set 0)
   \<and> \<not> blocks_holding_guard (Elf 0) (elf_iteration 0 init)
   \<and> elf_mutex \<notin> held (elf_iteration 0 init) (Elf 0)
   \<and> \<not> blocks_holding_guard (Reindeer 0) (reindeer 0 init)"
  using workers_hold_no_guard_lock_when_blocked [of init 0 0] elf_waits_in_line
  by (simp add: init_fields)

text \<open>
  In \<^verbatim>\<open>trunk/main.c\<close> the elf waits on its own semaphore inside the critical
  section: the first elf in line waits while it holds \<^verbatim>\<open>elf_mutex\<close>.
\<close>

lemma trunk_elf_waits_holding_elf_mutex:
  "status (trunk_elf_iteration 0 init) = Blocked (elf_line_set 0)
   \<and> elf_mutex \<in> held (trunk_elf_iteration 0 init) (Elf 0)
   \<and> blocks_holding_guard (Elf 0) (trunk_elf_iteration 0 init)"
  by (simp add: trunk_elf_iteration_def get_help_def blocks_holding_guard_def guard_locks_def
      prims macros init_fields)

end
